theory Spec2Isabelle
  imports Complex_Main "HOL-Library.AList"
begin

section \<open>Event-based backtesting: the ledger, the orders and the bar loops\<close>

text \<open>
  A shallow embedding of \<^verbatim>\<open>src/backtest.py\<close>: the class \<^verbatim>\<open>BacktestBase\<close> with its
  order methods, and the three strategies of \<^verbatim>\<open>BacktestLongOnly\<close> and of
  \<^verbatim>\<open>BacktestLongShort\<close>.

  Python floats are idealised as \<^typ>\<open>real\<close>: sums, products and rolling means are exact.
  A NaN entry of a rolling-mean column is \<^term>\<open>None\<close>; every comparison with it is false,
  as in IEEE arithmetic. Everything the source raises is a value of \<open>error\<close>.
\<close>

subsection \<open>Errors\<close>

datatype error =
    IndexError
  | KeyError
  | TypeError
  | ValueError
  | OverflowError
  | UnboundLocalError

definition bind_result :: "error + 'a \<Rightarrow> ('a \<Rightarrow> error + 'b) \<Rightarrow> error + 'b" where
  "bind_result m f = (case m of Inl e \<Rightarrow> Inl e | Inr x \<Rightarrow> f x)"

subsection \<open>The object state\<close>

text \<open>
  One row of \<^verbatim>\<open>self.data\<close> as \<^verbatim>\<open>get_data\<close> leaves it: the columns \<^verbatim>\<open>price\<close> and
  \<^verbatim>\<open>return\<close>. The date index is used for display only and is left out.
\<close>

record bar =
  price :: real
  return :: real

text \<open>
  A fill is one mutation of the ledger. The source narrates it on the console when
  \<^verbatim>\<open>verbose\<close> is set (\<^verbatim>\<open>buying n units at p\<close>, \<^verbatim>\<open>selling n units at p\<close>,
  \<^verbatim>\<open>inventory ... units at p\<close>); here it is a history entry with the bar index, the
  unit count and the price. For a close-out the unit count is the holding that was
  liquidated.
\<close>

datatype fill =
    BuyFill nat int real
  | SellFill nat int real
  | CloseOutFill nat int real

fun fill_bar :: "fill \<Rightarrow> nat" where
  "fill_bar (BuyFill b u p) = b"
| "fill_bar (SellFill b u p) = b"
| "fill_bar (CloseOutFill b u p) = b"

fun is_order :: "fill \<Rightarrow> bool" where
  "is_order (BuyFill b u p) = True"
| "is_order (SellFill b u p) = True"
| "is_order (CloseOutFill b u p) = False"

text \<open>
  The attributes of \<^verbatim>\<open>BacktestBase\<close>. \<open>columns\<close> holds the indicator columns a
  strategy adds to \<^verbatim>\<open>self.data\<close> (\<^verbatim>\<open>SMA1\<close>, \<^verbatim>\<open>SMA2\<close>, \<^verbatim>\<open>momentum\<close>, \<^verbatim>\<open>SMA\<close>),
  by name and in the order of their creation; they stay in the frame after the run.
  \<^verbatim>\<open>units\<close> is set to zero by \<^verbatim>\<open>__init__\<close> and by \<^verbatim>\<open>close_out\<close> only: no strategy
  method resets it at the start of a run.
  \<open>fills\<close> is the history of the fills of the current run; it is not an attribute of
  the source, and no operation reads it.
  \<^verbatim>\<open>symbol\<close>, \<^verbatim>\<open>start\<close> and \<^verbatim>\<open>end\<close> are read by \<^verbatim>\<open>get_data\<close> only and are left out.
\<close>

record backtest =
  initial_amount :: real
  amount :: real
  ftc :: real
  ptc :: real
  units :: int
  position :: int
  trades :: nat
  verbose :: bool
  data :: "bar list"
  columns :: "(string \<times> real option list) list"
  fills :: "fill list"

text \<open>\<^verbatim>\<open>__init__\<close>, with the frame that \<^verbatim>\<open>get_data\<close> would have loaded as a parameter.\<close>

definition init :: "real \<Rightarrow> real \<Rightarrow> real \<Rightarrow> bool \<Rightarrow> bar list \<Rightarrow> backtest" where
  "init amt f p v d =
     \<lparr>initial_amount = amt, amount = amt, ftc = f, ptc = p, units = 0, position = 0,
      trades = 0, verbose = v, data = d, columns = [], fills = []\<rparr>"

subsection \<open>Reading the frame\<close>

text \<open>\<^verbatim>\<open>.iloc[bar]\<close> for a non-negative position: out of range raises \<^verbatim>\<open>IndexError\<close>.\<close>

definition iloc :: "'a list \<Rightarrow> nat \<Rightarrow> error + 'a" where
  "iloc xs i = (if i < length xs then Inr (xs ! i) else Inl IndexError)"

text \<open>\<^verbatim>\<open>get_date_price\<close>, without the date.\<close>

definition get_date_price :: "backtest \<Rightarrow> nat \<Rightarrow> error + real" where
  "get_date_price s b = iloc (map price (data s)) b"

text \<open>\<^verbatim>\<open>self.data[name].iloc[bar]\<close> for an indicator column.\<close>

definition column_at :: "backtest \<Rightarrow> string \<Rightarrow> nat \<Rightarrow> error + real option" where
  "column_at s name b =
     (case map_of (columns s) name of None \<Rightarrow> Inl KeyError | Some c \<Rightarrow> iloc c b)"

text \<open>
  \<^verbatim>\<open>series.rolling(w).mean()\<close>: pandas rejects a negative window; the entry at index
  \<open>i\<close> is the mean of the \<open>w\<close> values ending at \<open>i\<close>, and NaN while fewer than \<open>w\<close>
  values are available (and everywhere for \<open>w = 0\<close>).
\<close>

definition window_mean :: "nat \<Rightarrow> real list \<Rightarrow> nat \<Rightarrow> real option" where
  "window_mean w xs i =
     (if w = 0 \<or> i + 1 < w then None
      else Some (sum_list (take w (drop (i + 1 - w) xs)) / real w))"

definition rolling_mean :: "int \<Rightarrow> real list \<Rightarrow> error + real option list" where
  "rolling_mean w xs =
     (if w < 0 then Inl ValueError
      else Inr (map (window_mean (nat w) xs) [0..<length xs]))"

text \<open>Comparisons of column entries; NaN compares false.\<close>

fun nan_gt :: "real option \<Rightarrow> real option \<Rightarrow> bool" where
  "nan_gt (Some x) (Some y) = (x > y)"
| "nan_gt _ _ = False"

fun nan_lt :: "real option \<Rightarrow> real option \<Rightarrow> bool" where
  "nan_lt (Some x) (Some y) = (x < y)"
| "nan_lt _ _ = False"

fun nan_ge :: "real option \<Rightarrow> real option \<Rightarrow> bool" where
  "nan_ge (Some x) (Some y) = (x \<ge> y)"
| "nan_ge _ _ = False"

fun nan_le :: "real option \<Rightarrow> real option \<Rightarrow> bool" where
  "nan_le (Some x) (Some y) = (x \<le> y)"
| "nan_le _ _ = False"

subsection \<open>Orders\<close>

text \<open>
  \<^verbatim>\<open>int(x)\<close> on a float truncates toward zero.
\<close>

definition int_trunc :: "real \<Rightarrow> int" where
  "int_trunc x = (if 0 \<le> x then \<lfloor>x\<rfloor> else \<lceil>x\<rceil>)"

text \<open>
  \<^verbatim>\<open>if units is None: units = int(amount / price)\<close>. The price is a numpy float, so a
  division by zero does not raise by itself: it yields an infinity (or NaN for
  \<open>0 / 0\<close>), which \<^verbatim>\<open>int\<close> then refuses with \<^verbatim>\<open>OverflowError\<close> (or \<^verbatim>\<open>ValueError\<close>).
  With neither argument given, \<^verbatim>\<open>None / price\<close> is a \<^verbatim>\<open>TypeError\<close>.
\<close>

definition order_units :: "int option \<Rightarrow> real option \<Rightarrow> real \<Rightarrow> error + int" where
  "order_units units_arg amount_arg p =
     (case units_arg of
        Some u \<Rightarrow> Inr u
      | None \<Rightarrow>
          (case amount_arg of
             None \<Rightarrow> Inl TypeError
           | Some a \<Rightarrow>
               if p = 0 then (if a = 0 then Inl ValueError else Inl OverflowError)
               else Inr (int_trunc (a / p))))"

definition place_buy_order :: "backtest \<Rightarrow> nat \<Rightarrow> int option \<Rightarrow> real option \<Rightarrow> error + backtest" where
  "place_buy_order s b units_arg amount_arg =
     bind_result (get_date_price s b) (\<lambda>p.
     bind_result (order_units units_arg amount_arg p) (\<lambda>u.
       Inr (s\<lparr>amount := amount s - ((of_int u * p) * (1 + ptc s) + ftc s),
              units := units s + u,
              trades := trades s + 1,
              fills := fills s @ [BuyFill b u p]\<rparr>)))"

definition place_sell_order :: "backtest \<Rightarrow> nat \<Rightarrow> int option \<Rightarrow> real option \<Rightarrow> error + backtest" where
  "place_sell_order s b units_arg amount_arg =
     bind_result (get_date_price s b) (\<lambda>p.
     bind_result (order_units units_arg amount_arg p) (\<lambda>u.
       Inr (s\<lparr>amount := amount s + ((of_int u * p) * (1 - ptc s) - ftc s),
              units := units s - u,
              trades := trades s + 1,
              fills := fills s @ [SellFill b u p]\<rparr>)))"

definition close_out :: "backtest \<Rightarrow> nat \<Rightarrow> error + backtest" where
  "close_out s b =
     bind_result (get_date_price s b) (\<lambda>p.
       Inr (s\<lparr>amount := amount s + of_int (units s) * p,
              units := 0,
              trades := trades s + 1,
              fills := fills s @ [CloseOutFill b (units s) p]\<rparr>))"

subsection \<open>The long-short controller\<close>

text \<open>
  The \<^verbatim>\<open>amount\<close> argument of \<^verbatim>\<open>go_long\<close> and \<^verbatim>\<open>go_short\<close>: the string \<^verbatim>\<open>"all"\<close>
  (\<open>AllCash\<close>) or a number.
\<close>

datatype budget = AllCash | Cash real

text \<open>
  \<^verbatim>\<open>if units:\<close> holds for an integer other than zero, \<^verbatim>\<open>elif amount:\<close> for \<^verbatim>\<open>"all"\<close>
  and for a number other than zero. \<^verbatim>\<open>"all"\<close> becomes the cash balance at that moment,
  after the closing order.
\<close>

definition go_long :: "backtest \<Rightarrow> nat \<Rightarrow> int option \<Rightarrow> budget option \<Rightarrow> error + backtest" where
  "go_long s b units_arg amount_arg =
     bind_result
       (if position s = - 1 then place_buy_order s b (Some (- units s)) None else Inr s)
       (\<lambda>s1.
          if units_arg \<noteq> None \<and> units_arg \<noteq> Some 0 then place_buy_order s1 b units_arg None
          else
            (case amount_arg of
               None \<Rightarrow> Inr s1
             | Some AllCash \<Rightarrow> place_buy_order s1 b None (Some (amount s1))
             | Some (Cash a) \<Rightarrow>
                 if a \<noteq> 0 then place_buy_order s1 b None (Some a) else Inr s1))"

definition go_short :: "backtest \<Rightarrow> nat \<Rightarrow> int option \<Rightarrow> budget option \<Rightarrow> error + backtest" where
  "go_short s b units_arg amount_arg =
     bind_result
       (if position s = 1 then place_sell_order s b (Some (units s)) None else Inr s)
       (\<lambda>s1.
          if units_arg \<noteq> None \<and> units_arg \<noteq> Some 0 then place_sell_order s1 b units_arg None
          else
            (case amount_arg of
               None \<Rightarrow> Inr s1
             | Some AllCash \<Rightarrow> place_sell_order s1 b None (Some (amount s1))
             | Some (Cash a) \<Rightarrow>
                 if a \<noteq> 0 then place_sell_order s1 b None (Some a) else Inr s1))"

subsection \<open>The parts every strategy method shares\<close>

text \<open>The three assignments that open every run; the history of fills starts anew.\<close>

definition reset_run :: "backtest \<Rightarrow> backtest" where
  "reset_run s = s\<lparr>position := 0, trades := 0, amount := initial_amount s, fills := []\<rparr>"

text \<open>
  \<^verbatim>\<open>self.data[name] = self.data[src].rolling(w).mean()\<close>: an existing column of that
  name is replaced where it stands, a new one is added at the end.
\<close>

definition set_rolling :: "string \<Rightarrow> (bar \<Rightarrow> real) \<Rightarrow> int \<Rightarrow> backtest \<Rightarrow> error + backtest" where
  "set_rolling name src w s =
     bind_result (rolling_mean w (map src (data s))) (\<lambda>c.
       Inr (s\<lparr>columns := AList.update name c (columns s)\<rparr>))"

text \<open>\<^verbatim>\<open>range(w, len(self.data))\<close> for a window that \<^verbatim>\<open>rolling\<close> has accepted.\<close>

definition bar_range :: "int \<Rightarrow> backtest \<Rightarrow> nat list" where
  "bar_range w s = [nat w ..< length (data s)]"

text \<open>The body of a \<^verbatim>\<open>for bar in ...\<close> loop, run over the bars in order.\<close>

fun run_loop :: "(nat \<Rightarrow> backtest \<Rightarrow> error + backtest) \<Rightarrow> nat list \<Rightarrow> backtest \<Rightarrow> error + backtest" where
  "run_loop step [] s = Inr s"
| "run_loop step (b # bs) s = bind_result (step b s) (run_loop step bs)"

text \<open>
  \<^verbatim>\<open>for bar in range(w, len(self.data)): ...\<close> followed by \<^verbatim>\<open>self.close_out(bar)\<close>.
  After a loop over an empty range the name \<^verbatim>\<open>bar\<close> is unbound, and reading it raises
  \<^verbatim>\<open>UnboundLocalError\<close>.
\<close>

definition run_bars :: "(nat \<Rightarrow> backtest \<Rightarrow> error + backtest) \<Rightarrow> int \<Rightarrow> backtest \<Rightarrow> error + backtest" where
  "run_bars step w s =
     bind_result (run_loop step (bar_range w s) s) (\<lambda>s'.
       if bar_range w s = [] then Inl UnboundLocalError
       else close_out s' (last (bar_range w s)))"

subsection \<open>\<^verbatim>\<open>BacktestLongOnly\<close>\<close>

definition lo_sma_step :: "nat \<Rightarrow> backtest \<Rightarrow> error + backtest" where
  "lo_sma_step b s =
     (if position s = 0 then
        bind_result (column_at s ''SMA1'' b) (\<lambda>x.
        bind_result (column_at s ''SMA2'' b) (\<lambda>y.
          if nan_gt x y then
            bind_result (place_buy_order s b None (Some (amount s))) (\<lambda>s'.
              Inr (s'\<lparr>position := 1\<rparr>))
          else Inr s))
      else if position s = 1 then
        bind_result (column_at s ''SMA1'' b) (\<lambda>x.
        bind_result (column_at s ''SMA2'' b) (\<lambda>y.
          if nan_lt x y then
            bind_result (place_sell_order s b (Some (units s)) None) (\<lambda>s'.
              Inr (s'\<lparr>position := 0\<rparr>))
          else Inr s))
      else Inr s)"

definition lo_run_sma_strategy :: "backtest \<Rightarrow> int \<Rightarrow> int \<Rightarrow> error + backtest" where
  "lo_run_sma_strategy s SMA1 SMA2 =
     bind_result (set_rolling ''SMA1'' price SMA1 (reset_run s)) (\<lambda>s1.
     bind_result (set_rolling ''SMA2'' price SMA2 s1) (\<lambda>s2.
       run_bars lo_sma_step SMA2 s2))"

definition lo_momentum_step :: "nat \<Rightarrow> backtest \<Rightarrow> error + backtest" where
  "lo_momentum_step b s =
     (if position s = 0 then
        bind_result (column_at s ''momentum'' b) (\<lambda>x.
          if nan_gt x (Some 0) then
            bind_result (place_buy_order s b None (Some (amount s))) (\<lambda>s'.
              Inr (s'\<lparr>position := 1\<rparr>))
          else Inr s)
      else if position s = 1 then
        bind_result (column_at s ''momentum'' b) (\<lambda>x.
          if nan_lt x (Some 0) then
            bind_result (place_sell_order s b (Some (units s)) None) (\<lambda>s'.
              Inr (s'\<lparr>position := 0\<rparr>))
          else Inr s)
      else Inr s)"

definition lo_run_momentum_strategy :: "backtest \<Rightarrow> int \<Rightarrow> error + backtest" where
  "lo_run_momentum_strategy s momentum =
     bind_result (set_rolling ''momentum'' return momentum (reset_run s)) (\<lambda>s1.
       run_bars lo_momentum_step momentum s1)"

definition lo_mean_reversion_step :: "real \<Rightarrow> nat \<Rightarrow> backtest \<Rightarrow> error + backtest" where
  "lo_mean_reversion_step threshold b s =
     (if position s = 0 then
        bind_result (get_date_price s b) (\<lambda>p.
        bind_result (column_at s ''SMA'' b) (\<lambda>m.
          if nan_lt (Some p) (map_option (\<lambda>v. v - threshold) m) then
            bind_result (place_buy_order s b None (Some (amount s))) (\<lambda>s'.
              Inr (s'\<lparr>position := 1\<rparr>))
          else Inr s))
      else if position s = 1 then
        bind_result (get_date_price s b) (\<lambda>p.
        bind_result (column_at s ''SMA'' b) (\<lambda>m.
          if nan_ge (Some p) m then
            bind_result (place_sell_order s b (Some (units s)) None) (\<lambda>s'.
              Inr (s'\<lparr>position := 0\<rparr>))
          else Inr s))
      else Inr s)"

definition lo_run_mean_reversion_strategy :: "backtest \<Rightarrow> int \<Rightarrow> real \<Rightarrow> error + backtest" where
  "lo_run_mean_reversion_strategy s SMA threshold =
     bind_result (set_rolling ''SMA'' price SMA (reset_run s)) (\<lambda>s1.
       run_bars (lo_mean_reversion_step threshold) SMA s1)"

subsection \<open>\<^verbatim>\<open>BacktestLongShort\<close>\<close>

text \<open>
  In the SMA and momentum loops the two tests are two \<^verbatim>\<open>if\<close> statements, not an
  \<^verbatim>\<open>if\<close>/\<^verbatim>\<open>elif\<close> pair: the second one reads the position the first one has just set.
\<close>

definition ls_sma_step :: "nat \<Rightarrow> backtest \<Rightarrow> error + backtest" where
  "ls_sma_step b s =
     bind_result
       (if position s = 0 \<or> position s = - 1 then
          bind_result (column_at s ''SMA1'' b) (\<lambda>x.
          bind_result (column_at s ''SMA2'' b) (\<lambda>y.
            if nan_gt x y then
              bind_result (go_long s b None (Some AllCash)) (\<lambda>s'. Inr (s'\<lparr>position := 1\<rparr>))
            else Inr s))
        else Inr s)
       (\<lambda>s1.
          if position s1 = 0 \<or> position s1 = 1 then
            bind_result (column_at s1 ''SMA1'' b) (\<lambda>x.
            bind_result (column_at s1 ''SMA2'' b) (\<lambda>y.
              if nan_lt x y then
                bind_result (go_short s1 b None (Some AllCash)) (\<lambda>s'. Inr (s'\<lparr>position := - 1\<rparr>))
              else Inr s1))
          else Inr s1)"

definition ls_run_sma_strategy :: "backtest \<Rightarrow> int \<Rightarrow> int \<Rightarrow> error + backtest" where
  "ls_run_sma_strategy s SMA1 SMA2 =
     bind_result (set_rolling ''SMA1'' price SMA1 (reset_run s)) (\<lambda>s1.
     bind_result (set_rolling ''SMA2'' price SMA2 s1) (\<lambda>s2.
       run_bars ls_sma_step SMA2 s2))"

definition ls_momentum_step :: "nat \<Rightarrow> backtest \<Rightarrow> error + backtest" where
  "ls_momentum_step b s =
     bind_result
       (if position s = 0 \<or> position s = - 1 then
          bind_result (column_at s ''momentum'' b) (\<lambda>x.
            if nan_gt x (Some 0) then
              bind_result (go_long s b None (Some AllCash)) (\<lambda>s'. Inr (s'\<lparr>position := 1\<rparr>))
            else Inr s)
        else Inr s)
       (\<lambda>s1.
          if position s1 = 0 \<or> position s1 = 1 then
            bind_result (column_at s1 ''momentum'' b) (\<lambda>x.
              if nan_le x (Some 0) then
                bind_result (go_short s1 b None (Some AllCash)) (\<lambda>s'. Inr (s'\<lparr>position := - 1\<rparr>))
              else Inr s1)
          else Inr s1)"

definition ls_run_momentum_strategy :: "backtest \<Rightarrow> int \<Rightarrow> error + backtest" where
  "ls_run_momentum_strategy s momentum =
     bind_result (set_rolling ''momentum'' return momentum (reset_run s)) (\<lambda>s1.
       run_bars ls_momentum_step momentum s1)"

definition ls_mean_reversion_step :: "real \<Rightarrow> nat \<Rightarrow> backtest \<Rightarrow> error + backtest" where
  "ls_mean_reversion_step threshold b s =
     (if position s = 0 then
        bind_result (get_date_price s b) (\<lambda>p.
        bind_result (column_at s ''SMA'' b) (\<lambda>m.
          if nan_lt (Some p) (map_option (\<lambda>v. v - threshold) m) then
            bind_result (go_long s b None (Some (Cash (initial_amount s)))) (\<lambda>s'.
              Inr (s'\<lparr>position := 1\<rparr>))
          else if nan_gt (Some p) (map_option (\<lambda>v. v + threshold) m) then
            bind_result (go_short s b None (Some (Cash (initial_amount s)))) (\<lambda>s'.
              Inr (s'\<lparr>position := - 1\<rparr>))
          else Inr s))
      else if position s = 1 then
        bind_result (get_date_price s b) (\<lambda>p.
        bind_result (column_at s ''SMA'' b) (\<lambda>m.
          if nan_ge (Some p) m then
            bind_result (place_sell_order s b (Some (units s)) None) (\<lambda>s'.
              Inr (s'\<lparr>position := 0\<rparr>))
          else Inr s))
      else if position s = - 1 then
        bind_result (get_date_price s b) (\<lambda>p.
        bind_result (column_at s ''SMA'' b) (\<lambda>m.
          if nan_le (Some p) m then
            bind_result (place_buy_order s b (Some (- units s)) None) (\<lambda>s'.
              Inr (s'\<lparr>position := 0\<rparr>))
          else Inr s))
      else Inr s)"

definition ls_run_mean_reversion_strategy :: "backtest \<Rightarrow> int \<Rightarrow> real \<Rightarrow> error + backtest" where
  "ls_run_mean_reversion_strategy s SMA threshold =
     bind_result (set_rolling ''SMA'' price SMA (reset_run s)) (\<lambda>s1.
       run_bars (ls_mean_reversion_step threshold) SMA s1)"

subsection \<open>A run of any strategy\<close>

text \<open>
  The six strategy methods with their parameters, so that a statement can range over
  all of them.
\<close>

datatype strategy =
    LongOnlySMA int int
  | LongOnlyMomentum int
  | LongOnlyMeanReversion int real
  | LongShortSMA int int
  | LongShortMomentum int
  | LongShortMeanReversion int real

fun run :: "strategy \<Rightarrow> backtest \<Rightarrow> error + backtest" where
  "run (LongOnlySMA SMA1 SMA2) s = lo_run_sma_strategy s SMA1 SMA2"
| "run (LongOnlyMomentum momentum) s = lo_run_momentum_strategy s momentum"
| "run (LongOnlyMeanReversion SMA threshold) s = lo_run_mean_reversion_strategy s SMA threshold"
| "run (LongShortSMA SMA1 SMA2) s = ls_run_sma_strategy s SMA1 SMA2"
| "run (LongShortMomentum momentum) s = ls_run_momentum_strategy s momentum"
| "run (LongShortMeanReversion SMA threshold) s = ls_run_mean_reversion_strategy s SMA threshold"

text \<open>
  The same run seen as its three stages: the reset with the indicator columns, the loop
  body, and the window the loop starts at.
\<close>

fun prepare :: "strategy \<Rightarrow> backtest \<Rightarrow> error + backtest" where
  "prepare (LongOnlySMA SMA1 SMA2) s =
     bind_result (set_rolling ''SMA1'' price SMA1 (reset_run s)) (set_rolling ''SMA2'' price SMA2)"
| "prepare (LongOnlyMomentum momentum) s = set_rolling ''momentum'' return momentum (reset_run s)"
| "prepare (LongOnlyMeanReversion SMA threshold) s = set_rolling ''SMA'' price SMA (reset_run s)"
| "prepare (LongShortSMA SMA1 SMA2) s =
     bind_result (set_rolling ''SMA1'' price SMA1 (reset_run s)) (set_rolling ''SMA2'' price SMA2)"
| "prepare (LongShortMomentum momentum) s = set_rolling ''momentum'' return momentum (reset_run s)"
| "prepare (LongShortMeanReversion SMA threshold) s = set_rolling ''SMA'' price SMA (reset_run s)"

fun step_of :: "strategy \<Rightarrow> nat \<Rightarrow> backtest \<Rightarrow> error + backtest" where
  "step_of (LongOnlySMA SMA1 SMA2) = lo_sma_step"
| "step_of (LongOnlyMomentum momentum) = lo_momentum_step"
| "step_of (LongOnlyMeanReversion SMA threshold) = lo_mean_reversion_step threshold"
| "step_of (LongShortSMA SMA1 SMA2) = ls_sma_step"
| "step_of (LongShortMomentum momentum) = ls_momentum_step"
| "step_of (LongShortMeanReversion SMA threshold) = ls_mean_reversion_step threshold"

fun start_of :: "strategy \<Rightarrow> int" where
  "start_of (LongOnlySMA SMA1 SMA2) = SMA2"
| "start_of (LongOnlyMomentum momentum) = momentum"
| "start_of (LongOnlyMeanReversion SMA threshold) = SMA"
| "start_of (LongShortSMA SMA1 SMA2) = SMA2"
| "start_of (LongShortMomentum momentum) = momentum"
| "start_of (LongShortMeanReversion SMA threshold) = SMA"

fun long_only :: "strategy \<Rightarrow> bool" where
  "long_only (LongOnlySMA SMA1 SMA2) = True"
| "long_only (LongOnlyMomentum momentum) = True"
| "long_only (LongOnlyMeanReversion SMA threshold) = True"
| "long_only _ = False"

text \<open>
  The state of a run after the first \<open>k\<close> passes through its loop body (after all of
  them when \<open>k\<close> is the number of bars or more), before the close-out.
\<close>

definition run_upto :: "strategy \<Rightarrow> nat \<Rightarrow> backtest \<Rightarrow> error + backtest" where
  "run_upto st k s =
     bind_result (prepare st s) (\<lambda>s1.
       run_loop (step_of st) (take k (bar_range (start_of st) s1)) s1)"

text \<open>What \<^verbatim>\<open>close_out\<close> prints: final balance, net performance in percent, trades.
  With an initial amount of zero the performance is printed as \<^verbatim>\<open>inf\<close> or \<^verbatim>\<open>nan\<close>.\<close>

definition summary :: "backtest \<Rightarrow> real \<times> real option \<times> nat" where
  "summary s =
     (amount s,
      (if initial_amount s = 0 then None
       else Some ((amount s - initial_amount s) / initial_amount s * 100)),
      trades s)"

subsection \<open>Vocabulary of the statements\<close>

text \<open>
  What a stretch of a run may do to the object: any number of buy and sell orders at
  bars of \<open>B\<close>, and assignments to \<^verbatim>\<open>self.position\<close>.
\<close>

inductive acts :: "nat set \<Rightarrow> backtest \<Rightarrow> backtest \<Rightarrow> bool" for B :: "nat set" where
  acts_none: "acts B s s"
| acts_buy: "acts B s s1 \<Longrightarrow> b \<in> B \<Longrightarrow> place_buy_order s1 b ua aa = Inr s2 \<Longrightarrow> acts B s s2"
| acts_sell: "acts B s s1 \<Longrightarrow> b \<in> B \<Longrightarrow> place_sell_order s1 b ua aa = Inr s2 \<Longrightarrow> acts B s s2"
| acts_position: "acts B s s1 \<Longrightarrow> acts B s (s1\<lparr>position := v\<rparr>)"

text \<open>
  \<open>u\<close> is \<open>x\<close> truncated toward zero: the integer part of \<open>x\<close>, with the sign of \<open>x\<close>.
\<close>

definition truncates_toward_zero :: "real \<Rightarrow> int \<Rightarrow> bool" where
  "truncates_toward_zero x u \<longleftrightarrow>
     \<bar>of_int u\<bar> \<le> \<bar>x\<bar> \<and> \<bar>x\<bar> < \<bar>of_int u\<bar> + 1 \<and> 0 \<le> of_int u * x"

text \<open>Price series for the concrete runs below; the returns play no part in them.\<close>

definition flat_bars :: "bar list" where
  "flat_bars = [\<lparr>price = 1, return = 0\<rparr>, \<lparr>price = 1, return = 0\<rparr>, \<lparr>price = 1, return = 0\<rparr>]"

definition crash_bars :: "bar list" where
  "crash_bars =
     [\<lparr>price = 50, return = 0\<rparr>, \<lparr>price = 50, return = 0\<rparr>, \<lparr>price = 100, return = 0\<rparr>,
      \<lparr>price = 1, return = 0\<rparr>, \<lparr>price = 2, return = 0\<rparr>]"

text \<open>
  The arguments with which \<^verbatim>\<open>go_long\<close> and \<^verbatim>\<open>go_short\<close> place an opening order: a
  unit count or a budget that Python takes as true.
\<close>

definition opens :: "int option \<Rightarrow> budget option \<Rightarrow> bool" where
  "opens units_arg amount_arg \<longleftrightarrow>
     (units_arg \<noteq> None \<and> units_arg \<noteq> Some 0) \<or>
     amount_arg = Some AllCash \<or> (\<exists>a. amount_arg = Some (Cash a) \<and> a \<noteq> 0)"

text \<open>
  States of concrete runs: an object short 1000 units after \<^verbatim>\<open>go_short(0, amount="all")\<close>
  on \<open>flat_bars\<close>, and the same object after \<^verbatim>\<open>go_long(1, amount="all")\<close>; the
  long-only SMA(1, 2) run on \<open>crash_bars\<close> with the costs of the source's main block
  after its first two bars, when the cash is negative; a series whose last price is
  zero, and one with a negative price.
\<close>

definition short_state :: backtest where
  "short_state =
     \<lparr>initial_amount = 1000, amount = 2000, ftc = 0, ptc = 0, units = - 1000, position = - 1,
      trades = 1, verbose = False, data = flat_bars, columns = [], fills = [SellFill 0 1000 1]\<rparr>"

definition long_state :: backtest where
  "long_state =
     \<lparr>initial_amount = 1000, amount = 0, ftc = 0, ptc = 0, units = 1000, position = - 1,
      trades = 3, verbose = False, data = flat_bars, columns = [],
      fills = [SellFill 0 1000 1, BuyFill 1 1000 1, BuyFill 1 1000 1]\<rparr>"

definition debt_state :: backtest where
  "debt_state =
     \<lparr>initial_amount = 10000, amount = - 21, ftc = 10, ptc = 1 / 100, units = 0, position = 0,
      trades = 2, verbose = False, data = crash_bars,
      columns = [(''SMA1'', [Some 50, Some 50, Some 100, Some 1, Some 2]),
                 (''SMA2'', [None, Some 50, Some 75, Some (101 / 2), Some (3 / 2)])],
      fills = [BuyFill 2 100 100, SellFill 3 100 1]\<rparr>"

definition zero_price_start :: backtest where
  "zero_price_start =
     init 100 0 0 False
       [\<lparr>price = 2, return = 0\<rparr>, \<lparr>price = 2, return = 0\<rparr>, \<lparr>price = 0, return = 0\<rparr>]"

definition negative_price_start :: backtest where
  "negative_price_start = init 100 0 0 False [\<lparr>price = - 2, return = 0\<rparr>]"

text \<open>
  The column computed with the window at which the loop starts.
\<close>

fun start_column :: "strategy \<Rightarrow> string" where
  "start_column (LongOnlySMA SMA1 SMA2) = ''SMA2''"
| "start_column (LongOnlyMomentum momentum) = ''momentum''"
| "start_column (LongOnlyMeanReversion SMA threshold) = ''SMA''"
| "start_column (LongShortSMA SMA1 SMA2) = ''SMA2''"
| "start_column (LongShortMomentum momentum) = ''momentum''"
| "start_column (LongShortMeanReversion SMA threshold) = ''SMA''"

text \<open>
  The two invariants of the long-only loops: the position is flat or long; and, for a
  run without costs on positive prices, neither the cash nor the holding is negative.
\<close>

definition flat_or_long :: "backtest \<Rightarrow> bool" where
  "flat_or_long s \<longleftrightarrow> position s = 0 \<or> position s = 1"

definition solvent :: "backtest \<Rightarrow> bool" where
  "solvent s \<longleftrightarrow>
     ftc s = 0 \<and> ptc s = 0 \<and> list_all (\<lambda>x. 0 < price x) (data s) \<and>
     0 \<le> amount s \<and> 0 \<le> units s"

text \<open>
  More states of concrete runs, all of the long-only SMA(1, 2) strategy: on
  \<open>flat_bars\<close> without costs (no signal ever fires), on \<open>crash_bars\<close> with the costs
  of the source's main block, and on \<open>rise_bars\<close> without costs; each at the start,
  after the loop, and after the close-out.
\<close>

definition flat_start :: backtest where
  "flat_start = init 10000 0 0 False flat_bars"

definition flat_loop_end :: backtest where
  "flat_loop_end =
     \<lparr>initial_amount = 10000, amount = 10000, ftc = 0, ptc = 0, units = 0, position = 0,
      trades = 0, verbose = False, data = flat_bars,
      columns = [(''SMA1'', [Some 1, Some 1, Some 1]), (''SMA2'', [None, Some 1, Some 1])],
      fills = []\<rparr>"

definition flat_end :: backtest where
  "flat_end =
     \<lparr>initial_amount = 10000, amount = 10000, ftc = 0, ptc = 0, units = 0, position = 0,
      trades = 1, verbose = False, data = flat_bars,
      columns = [(''SMA1'', [Some 1, Some 1, Some 1]), (''SMA2'', [None, Some 1, Some 1])],
      fills = [CloseOutFill 2 0 1]\<rparr>"

definition crash_start :: backtest where
  "crash_start = init 10000 10 (1 / 100) False crash_bars"

definition crash_prepared :: backtest where
  "crash_prepared =
     \<lparr>initial_amount = 10000, amount = 10000, ftc = 10, ptc = 1 / 100, units = 0, position = 0,
      trades = 0, verbose = False, data = crash_bars,
      columns = [(''SMA1'', [Some 50, Some 50, Some 100, Some 1, Some 2]),
                 (''SMA2'', [None, Some 50, Some 75, Some (101 / 2), Some (3 / 2)])],
      fills = []\<rparr>"

definition crash_end :: backtest where
  "crash_end =
     \<lparr>initial_amount = 10000, amount = - (154 / 5), ftc = 10, ptc = 1 / 100, units = 0,
      position = 1, trades = 4, verbose = False, data = crash_bars,
      columns = [(''SMA1'', [Some 50, Some 50, Some 100, Some 1, Some 2]),
                 (''SMA2'', [None, Some 50, Some 75, Some (101 / 2), Some (3 / 2)])],
      fills = [BuyFill 2 100 100, SellFill 3 100 1, BuyFill 4 (- 10) 2, CloseOutFill 4 (- 10) 2]\<rparr>"

definition rise_bars :: "bar list" where
  "rise_bars =
     [\<lparr>price = 1, return = 0\<rparr>, \<lparr>price = 2, return = 0\<rparr>, \<lparr>price = 4, return = 0\<rparr>,
      \<lparr>price = 2, return = 0\<rparr>, \<lparr>price = 4, return = 0\<rparr>]"

definition rise_start :: backtest where
  "rise_start = init 10 0 0 False rise_bars"

definition crash_loop_end :: backtest where
  "crash_loop_end =
     \<lparr>initial_amount = 10000, amount = - (54 / 5), ftc = 10, ptc = 1 / 100, units = - 10,
      position = 1, trades = 3, verbose = False, data = crash_bars,
      columns = [(''SMA1'', [Some 50, Some 50, Some 100, Some 1, Some 2]),
                 (''SMA2'', [None, Some 50, Some 75, Some (101 / 2), Some (3 / 2)])],
      fills = [BuyFill 2 100 100, SellFill 3 100 1, BuyFill 4 (- 10) 2]\<rparr>"

definition rise_loop_end :: backtest where
  "rise_loop_end =
     \<lparr>initial_amount = 10, amount = 2, ftc = 0, ptc = 0, units = 1, position = 1, trades = 3,
      verbose = False, data = rise_bars,
      columns = [(''SMA1'', [Some 1, Some 2, Some 4, Some 2, Some 4]),
                 (''SMA2'', [None, Some (3 / 2), Some 3, Some 3, Some 3])],
      fills = [BuyFill 2 2 4, SellFill 3 2 2, BuyFill 4 1 4]\<rparr>"

definition rise_end :: backtest where
  "rise_end =
     \<lparr>initial_amount = 10, amount = 6, ftc = 0, ptc = 0, units = 0, position = 1, trades = 4,
      verbose = False, data = rise_bars,
      columns = [(''SMA1'', [Some 1, Some 2, Some 4, Some 2, Some 4]),
                 (''SMA2'', [None, Some (3 / 2), Some 3, Some 3, Some 3])],
      fills = [BuyFill 2 2 4, SellFill 3 2 2, BuyFill 4 1 4, CloseOutFill 4 1 4]\<rparr>"

text \<open>
  States of the long-short SMA(1, 2) run on \<open>flip_bars\<close> without costs, with an
  initial amount of 1000: at the start, after bar 2 (short 500 units sold at 2), and
  after the pass of the loop body at bar 3, where the price is 8.
\<close>

definition flip_bars :: "bar list" where
  "flip_bars =
     [\<lparr>price = 4, return = 0\<rparr>, \<lparr>price = 4, return = 0\<rparr>, \<lparr>price = 2, return = 0\<rparr>,
      \<lparr>price = 8, return = 0\<rparr>]"

definition flip_start :: backtest where
  "flip_start = init 1000 0 0 False flip_bars"

definition flip_short :: backtest where
  "flip_short =
     \<lparr>initial_amount = 1000, amount = 2000, ftc = 0, ptc = 0, units = - 500, position = - 1,
      trades = 1, verbose = False, data = flip_bars,
      columns = [(''SMA1'', [Some 4, Some 4, Some 2, Some 8]),
                 (''SMA2'', [None, Some 4, Some 3, Some 5])],
      fills = [SellFill 2 500 2]\<rparr>"

definition flip_long :: backtest where
  "flip_long =
     \<lparr>initial_amount = 1000, amount = 0, ftc = 0, ptc = 0, units = - 250, position = 1,
      trades = 3, verbose = False, data = flip_bars,
      columns = [(''SMA1'', [Some 4, Some 4, Some 2, Some 8]),
                 (''SMA2'', [None, Some 4, Some 3, Some 5])],
      fills = [SellFill 2 500 2, BuyFill 3 500 8, BuyFill 3 (- 250) 8]\<rparr>"

section \<open>Properties\<close>

subsection \<open>Results of the operations\<close>

lemma bind_result_Inl: "bind_result (Inl e) f = Inl e"
  by (simp add: bind_result_def)

lemma bind_result_Inr: "bind_result (Inr x) f = f x"
  by (simp add: bind_result_def)

lemma bind_result_eq_Inr: "bind_result m f = Inr y \<longleftrightarrow> (\<exists>x. m = Inr x \<and> f x = Inr y)"
  by (cases m) (simp_all add: bind_result_def)

lemma run_stages: "run st s = bind_result (prepare st s) (run_bars (step_of st) (start_of st))"
  by (cases st)
     (simp_all add: lo_run_sma_strategy_def lo_run_momentum_strategy_def
        lo_run_mean_reversion_strategy_def ls_run_sma_strategy_def ls_run_momentum_strategy_def
        ls_run_mean_reversion_strategy_def bind_result_def split: sum.splits)

lemma acts_trans: "acts B s1 s2 \<Longrightarrow> acts B s0 s1 \<Longrightarrow> acts B s0 s2"
  by (induction rule: acts.induct) (auto intro: acts.intros)

lemma acts_mono: "acts A s s' \<Longrightarrow> A \<subseteq> B \<Longrightarrow> acts B s s'"
  by (induction rule: acts.induct) (auto intro: acts.intros)

lemma acts_buy1: "place_buy_order s b ua aa = Inr s' \<Longrightarrow> acts {b} s s'"
  by (rule acts_buy[OF acts_none]) auto

lemma acts_sell1: "place_sell_order s b ua aa = Inr s' \<Longrightarrow> acts {b} s s'"
  by (rule acts_sell[OF acts_none]) auto

lemma go_long_acts: "go_long s b ua aa = Inr s' \<Longrightarrow> acts {b} s s'"
  unfolding go_long_def bind_result_eq_Inr
  by (auto split: if_splits option.splits budget.splits
      intro: acts_none acts_buy1 acts_trans[OF acts_buy1 acts_buy1])

lemma go_short_acts: "go_short s b ua aa = Inr s' \<Longrightarrow> acts {b} s s'"
  unfolding go_short_def bind_result_eq_Inr
  by (auto split: if_splits option.splits budget.splits
      intro: acts_none acts_sell1 acts_trans[OF acts_sell1 acts_sell1])

lemma lo_sma_step_acts: "lo_sma_step b s = Inr s' \<Longrightarrow> acts {b} s s'"
  by (auto simp: lo_sma_step_def bind_result_eq_Inr split: if_splits
      intro: acts_none acts_position acts_buy1 acts_sell1)

lemma lo_momentum_step_acts: "lo_momentum_step b s = Inr s' \<Longrightarrow> acts {b} s s'"
  by (auto simp: lo_momentum_step_def bind_result_eq_Inr split: if_splits
      intro: acts_none acts_position acts_buy1 acts_sell1)

lemma lo_mean_reversion_step_acts: "lo_mean_reversion_step th b s = Inr s' \<Longrightarrow> acts {b} s s'"
  by (auto simp: lo_mean_reversion_step_def bind_result_eq_Inr split: if_splits
      intro: acts_none acts_position acts_buy1 acts_sell1)

lemma ls_mean_reversion_step_acts: "ls_mean_reversion_step th b s = Inr s' \<Longrightarrow> acts {b} s s'"
  by (auto simp: ls_mean_reversion_step_def bind_result_eq_Inr split: if_splits
      intro: acts_none acts_position acts_buy1 acts_sell1 go_long_acts go_short_acts)

lemma ls_sma_step_acts: "ls_sma_step b s = Inr s' \<Longrightarrow> acts {b} s s'"
proof -
  assume a: "ls_sma_step b s = Inr s'"
  then obtain s1 where
    f: "(if position s = 0 \<or> position s = - 1 then
          bind_result (column_at s ''SMA1'' b) (\<lambda>x.
          bind_result (column_at s ''SMA2'' b) (\<lambda>y.
            if nan_gt x y then
              bind_result (go_long s b None (Some AllCash)) (\<lambda>s'. Inr (s'\<lparr>position := 1\<rparr>))
            else Inr s))
        else Inr s) = Inr s1" and
    g: "(if position s1 = 0 \<or> position s1 = 1 then
            bind_result (column_at s1 ''SMA1'' b) (\<lambda>x.
            bind_result (column_at s1 ''SMA2'' b) (\<lambda>y.
              if nan_lt x y then
                bind_result (go_short s1 b None (Some AllCash)) (\<lambda>s'. Inr (s'\<lparr>position := - 1\<rparr>))
              else Inr s1))
          else Inr s1) = Inr s'"
    unfolding ls_sma_step_def bind_result_eq_Inr by blast
  from f have 1: "acts {b} s s1"
    by (auto simp: bind_result_eq_Inr split: if_splits intro: acts_none acts_position go_long_acts)
  from g have 2: "acts {b} s1 s'"
    by (auto simp: bind_result_eq_Inr split: if_splits intro: acts_none acts_position go_short_acts)
  from 2 1 show ?thesis by (rule acts_trans)
qed

lemma ls_momentum_step_acts: "ls_momentum_step b s = Inr s' \<Longrightarrow> acts {b} s s'"
proof -
  assume a: "ls_momentum_step b s = Inr s'"
  then obtain s1 where
    f: "(if position s = 0 \<or> position s = - 1 then
          bind_result (column_at s ''momentum'' b) (\<lambda>x.
            if nan_gt x (Some 0) then
              bind_result (go_long s b None (Some AllCash)) (\<lambda>s'. Inr (s'\<lparr>position := 1\<rparr>))
            else Inr s)
        else Inr s) = Inr s1" and
    g: "(if position s1 = 0 \<or> position s1 = 1 then
            bind_result (column_at s1 ''momentum'' b) (\<lambda>x.
              if nan_le x (Some 0) then
                bind_result (go_short s1 b None (Some AllCash)) (\<lambda>s'. Inr (s'\<lparr>position := - 1\<rparr>))
              else Inr s1)
          else Inr s1) = Inr s'"
    unfolding ls_momentum_step_def bind_result_eq_Inr by blast
  from f have 1: "acts {b} s s1"
    by (auto simp: bind_result_eq_Inr split: if_splits intro: acts_none acts_position go_long_acts)
  from g have 2: "acts {b} s1 s'"
    by (auto simp: bind_result_eq_Inr split: if_splits intro: acts_none acts_position go_short_acts)
  from 2 1 show ?thesis by (rule acts_trans)
qed

lemma step_of_acts: "step_of st b s = Inr s' \<Longrightarrow> acts {b} s s'"
  by (cases st)
     (auto intro: lo_sma_step_acts lo_momentum_step_acts lo_mean_reversion_step_acts
        ls_sma_step_acts ls_momentum_step_acts ls_mean_reversion_step_acts)

lemma run_loop_acts:
  "run_loop (step_of st) bs s = Inr s' \<Longrightarrow> acts (set bs) s s'"
proof (induction bs arbitrary: s)
  case Nil
  then show ?case by (simp add: acts_none)
next
  case (Cons b bs)
  then obtain s1 where 1: "step_of st b s = Inr s1" and 2: "run_loop (step_of st) bs s1 = Inr s'"
    by (auto simp: bind_result_eq_Inr)
  have "acts (set (b # bs)) s s1"
    using step_of_acts[OF 1] by (rule acts_mono) simp
  moreover have "acts (set (b # bs)) s1 s'"
    using Cons.IH[OF 2] by (rule acts_mono) auto
  ultimately show ?case by (rule acts_trans[rotated])
qed

lemma acts_frame:
  "acts B s s' \<Longrightarrow>
     initial_amount s' = initial_amount s \<and> ftc s' = ftc s \<and> ptc s' = ptc s \<and>
     verbose s' = verbose s \<and> data s' = data s \<and> columns s' = columns s"
  by (induction rule: acts.induct)
     (auto simp: place_buy_order_def place_sell_order_def bind_result_eq_Inr)

lemma acts_fills:
  "acts B s s' \<Longrightarrow>
     \<exists>fs. fills s' = fills s @ fs \<and> list_all is_order fs \<and> (\<forall>f \<in> set fs. fill_bar f \<in> B) \<and>
          trades s' = trades s + length fs"
proof (induction rule: acts.induct)
  case (acts_none s)
  then show ?case by simp
next
  case (acts_buy s s1 b ua aa s2)
  then obtain fs where "fills s1 = fills s @ fs" "list_all is_order fs"
      "\<forall>f \<in> set fs. fill_bar f \<in> B" "trades s1 = trades s + length fs" by blast
  moreover obtain u p where "fills s2 = fills s1 @ [BuyFill b u p]" "trades s2 = trades s1 + 1"
    using acts_buy.hyps(3) by (auto simp: place_buy_order_def bind_result_eq_Inr)
  ultimately show ?case using acts_buy.hyps(2)
    by (intro exI[of _ "fs @ [BuyFill b u p]"]) simp
next
  case (acts_sell s s1 b ua aa s2)
  then obtain fs where "fills s1 = fills s @ fs" "list_all is_order fs"
      "\<forall>f \<in> set fs. fill_bar f \<in> B" "trades s1 = trades s + length fs" by blast
  moreover obtain u p where "fills s2 = fills s1 @ [SellFill b u p]" "trades s2 = trades s1 + 1"
    using acts_sell.hyps(3) by (auto simp: place_sell_order_def bind_result_eq_Inr)
  ultimately show ?case using acts_sell.hyps(2)
    by (intro exI[of _ "fs @ [SellFill b u p]"]) simp
next
  case (acts_position s s1 v)
  then show ?case by simp
qed

lemma place_buy_order_Inr:
  "place_buy_order s b ua aa = Inr s' \<longleftrightarrow>
     (\<exists>p u. get_date_price s b = Inr p \<and> order_units ua aa p = Inr u \<and>
        s' = s\<lparr>amount := amount s - ((of_int u * p) * (1 + ptc s) + ftc s),
              units := units s + u, trades := trades s + 1,
              fills := fills s @ [BuyFill b u p]\<rparr>)"
  by (auto simp: place_buy_order_def bind_result_eq_Inr)

lemma place_sell_order_Inr:
  "place_sell_order s b ua aa = Inr s' \<longleftrightarrow>
     (\<exists>p u. get_date_price s b = Inr p \<and> order_units ua aa p = Inr u \<and>
        s' = s\<lparr>amount := amount s + ((of_int u * p) * (1 - ptc s) - ftc s),
              units := units s - u, trades := trades s + 1,
              fills := fills s @ [SellFill b u p]\<rparr>)"
  by (auto simp: place_sell_order_def bind_result_eq_Inr)

lemma close_out_Inr:
  "close_out s b = Inr s' \<longleftrightarrow>
     (\<exists>p. get_date_price s b = Inr p \<and>
        s' = s\<lparr>amount := amount s + of_int (units s) * p, units := 0, trades := trades s + 1,
              fills := fills s @ [CloseOutFill b (units s) p]\<rparr>)"
  by (auto simp: close_out_def bind_result_eq_Inr)

subsection \<open>Orders and the close-out\<close>

text \<open>
  Claim C2. A fill of \<open>u\<close> units at the price \<open>p\<close> of its bar, whether \<open>u\<close> was given or
  came from a cash budget: a buy takes \<open>u * p * (1 + ptc) + ftc\<close> from the cash, a sell
  adds \<open>u * p * (1 - ptc) - ftc\<close> to it (the proportional cost lowers the proceeds);
  the holding moves by \<open>u\<close> in the direction of the order and the trade count grows by
  one, all in the one resulting state. The price need not be positive for this.
\<close>

theorem order_updates_ledger:
  assumes "get_date_price s b = Inr p" and "order_units ua aa p = Inr u"
  shows "\<exists>s1 s2.
     place_buy_order s b ua aa = Inr s1 \<and>
     amount s1 = amount s - of_int u * p * (1 + ptc s) - ftc s \<and>
     units s1 = units s + u \<and> trades s1 = trades s + 1 \<and>
     place_sell_order s b ua aa = Inr s2 \<and>
     amount s2 = amount s + of_int u * p * (1 - ptc s) - ftc s \<and>
     units s2 = units s - u \<and> trades s2 = trades s + 1"
  using assms by (simp add: place_buy_order_def place_sell_order_def bind_result_def)

theorem order_updates_ledger_witness:
  "get_date_price (init 10000 10 (1/100) False crash_bars) 2 = Inr 100 \<and>
   order_units (Some 3) None 100 = Inr 3 \<and>
   (\<exists>s1 s2.
     place_buy_order (init 10000 10 (1/100) False crash_bars) 2 (Some 3) None = Inr s1 \<and>
     amount s1 = 9687 \<and> units s1 = 3 \<and> trades s1 = 1 \<and>
     place_sell_order (init 10000 10 (1/100) False crash_bars) 2 (Some 3) None = Inr s2 \<and>
     amount s2 = 10287 \<and> units s2 = - 3 \<and> trades s2 = 1)"
proof -
  have p: "get_date_price (init 10000 10 (1/100) False crash_bars) 2 = Inr 100"
    by (simp add: get_date_price_def iloc_def init_def crash_bars_def)
  have u: "order_units (Some 3) None 100 = Inr 3"
    by (simp add: order_units_def)
  show ?thesis
    using order_updates_ledger[OF p u] p u by (simp add: init_def)
qed

text \<open>
  Claim C10. The close-out at a bar with price \<open>p\<close> adds exactly \<open>units * p\<close> to the
  cash, whatever \<open>ftc\<close> and \<open>ptc\<close> are and whatever the sign of the holding, sets the
  holding to zero and counts one trade, also for a holding of zero.
\<close>

theorem close_out_without_costs:
  assumes "get_date_price s b = Inr p"
  shows "\<exists>s'. close_out s b = Inr s' \<and>
     amount s' = amount s + of_int (units s) * p \<and> units s' = 0 \<and>
     trades s' = trades s + 1 \<and> ftc s' = ftc s \<and> ptc s' = ptc s"
  using assms by (simp add: close_out_def bind_result_def)

theorem close_out_without_costs_witness:
  "get_date_price (init 10000 10 (1/100) False crash_bars) 4 = Inr 2 \<and>
   (\<exists>s'. close_out (init 10000 10 (1/100) False crash_bars) 4 = Inr s' \<and>
     amount s' = 10000 \<and> units s' = 0 \<and> trades s' = 1 \<and> ftc s' = 10 \<and> ptc s' = 1/100)"
proof -
  have p: "get_date_price (init 10000 10 (1/100) False crash_bars) 4 = Inr 2"
    by (simp add: get_date_price_def iloc_def init_def crash_bars_def)
  show ?thesis
    using close_out_without_costs[OF p] p by (simp add: init_def)
qed


subsection \<open>Truncation toward zero\<close>

lemma int_trunc_truncates: "truncates_toward_zero x (int_trunc x)"
proof (cases "0 \<le> x")
  case True
  then have "0 \<le> \<lfloor>x\<rfloor>" by simp
  moreover have "of_int \<lfloor>x\<rfloor> \<le> x" "x < of_int \<lfloor>x\<rfloor> + 1" by linarith+
  ultimately show ?thesis using True
    by (simp add: truncates_toward_zero_def int_trunc_def)
next
  case False
  then have x: "x < 0" by simp
  then have c: "\<lceil>x\<rceil> \<le> 0" by (simp add: ceiling_le_iff)
  then have c': "real_of_int \<lceil>x\<rceil> \<le> 0" by simp
  have a1: "\<bar>real_of_int \<lceil>x\<rceil>\<bar> = - real_of_int \<lceil>x\<rceil>" using c' by (rule abs_of_nonpos)
  have a2: "\<bar>x\<bar> = - x" using x by simp
  have b: "x \<le> of_int \<lceil>x\<rceil>" "of_int \<lceil>x\<rceil> < x + 1" by linarith+
  have m: "0 \<le> real_of_int \<lceil>x\<rceil> * x"
    using c' x by (simp add: mult_nonpos_nonpos)
  have "int_trunc x = \<lceil>x\<rceil>" using x by (simp add: int_trunc_def)
  then show ?thesis
    unfolding truncates_toward_zero_def a2 using a1 b m by simp
qed

lemma truncates_toward_zero_unique:
  assumes "truncates_toward_zero x u" and "truncates_toward_zero x v"
  shows "u = v"
proof (cases "0 \<le> x")
  case True
  show ?thesis
  proof (cases "x < 1")
    case True
    with assms \<open>0 \<le> x\<close> have "\<bar>real_of_int u\<bar> < 1" "\<bar>real_of_int v\<bar> < 1"
      by (simp_all add: truncates_toward_zero_def)
    then have "u = 0" "v = 0" by linarith+
    then show ?thesis by simp
  next
    case False
    then have x1: "1 \<le> x" by simp
    have nn: "0 \<le> w" if "truncates_toward_zero x w" for w
    proof (rule ccontr)
      assume "\<not> 0 \<le> w"
      then have "real_of_int w \<le> - 1" by linarith
      then have "real_of_int w < 0" by simp
      moreover have "0 < x" using x1 by simp
      ultimately have "real_of_int w * x < 0" by (rule mult_neg_pos)
      with that show False by (simp add: truncates_toward_zero_def)
    qed
    from nn[OF assms(1)] nn[OF assms(2)] assms x1 have
      "real_of_int u \<le> x" "x < real_of_int u + 1" "real_of_int v \<le> x" "x < real_of_int v + 1"
      by (simp_all add: truncates_toward_zero_def)
    then show ?thesis by linarith
  qed
next
  case False
  then have x: "x < 0" by simp
  show ?thesis
  proof (cases "- 1 < x")
    case True
    with assms x have "\<bar>real_of_int u\<bar> < 1" "\<bar>real_of_int v\<bar> < 1"
      by (simp_all add: truncates_toward_zero_def)
    then have "u = 0" "v = 0" by linarith+
    then show ?thesis by simp
  next
    case False
    then have x1: "x \<le> - 1" by simp
    have np: "w \<le> 0" if "truncates_toward_zero x w" for w
    proof (rule ccontr)
      assume "\<not> w \<le> 0"
      then have "1 \<le> real_of_int w" by linarith
      then have "0 < real_of_int w" by simp
      moreover have "x < 0" using x1 by simp
      ultimately have "real_of_int w * x < 0" by (rule mult_pos_neg)
      with that show False by (simp add: truncates_toward_zero_def)
    qed
    from np[OF assms(1)] np[OF assms(2)] assms x1 have
      "- real_of_int u \<le> - x" "- x < - real_of_int u + 1" "- real_of_int v \<le> - x" "- x < - real_of_int v + 1"
      by (simp_all add: truncates_toward_zero_def)
    then show ?thesis by linarith
  qed
qed

lemma budget_order:
  assumes "get_date_price s b = Inr p" and "p \<noteq> 0"
  shows "\<exists>s1 s2 u.
     place_buy_order s b None (Some a) = Inr s1 \<and> units s1 = units s + u \<and>
     place_sell_order s b None (Some a) = Inr s2 \<and> units s2 = units s - u \<and>
     truncates_toward_zero (a / p) u \<and> u = int_trunc (a / p)"
  using assms int_trunc_truncates[of "a / p"]
  by (simp add: place_buy_order_def place_sell_order_def order_units_def bind_result_def)

text \<open>
  Claim C3, amended. At a positive price a cash budget \<open>a\<close> buys or sells \<open>a / p\<close>
  truncated toward zero, a whole number of units. That is \<open>\<lfloor>a / p\<rfloor>\<close> for a budget
  that is not negative, and \<open>\<lceil>a / p\<rceil>\<close> for a negative one, which occurs when
  \<^verbatim>\<open>"all"\<close> stands for a negative cash balance. \<^verbatim>\<open>"all"\<close> is the cash balance at the
  moment of the opening order: the balance before the call when nothing is closed, and
  the balance left by the closing order when \<^verbatim>\<open>go_long\<close> first covers a short or
  \<^verbatim>\<open>go_short\<close> first sells a long.
\<close>

theorem budget_units_truncated:
  assumes "get_date_price s b = Inr p" and "0 < p"
  shows "(\<exists>s1 s2 u.
            place_buy_order s b None (Some a) = Inr s1 \<and> units s1 = units s + u \<and>
            place_sell_order s b None (Some a) = Inr s2 \<and> units s2 = units s - u \<and>
            truncates_toward_zero (a / p) u \<and>
            (0 \<le> a \<longrightarrow> u = \<lfloor>a / p\<rfloor>) \<and> (a < 0 \<longrightarrow> u = \<lceil>a / p\<rceil>)) \<and>
         (position s \<noteq> - 1 \<longrightarrow>
            go_long s b None (Some AllCash) = place_buy_order s b None (Some (amount s))) \<and>
         (position s = - 1 \<longrightarrow>
            (\<exists>s1. place_buy_order s b (Some (- units s)) None = Inr s1 \<and>
               go_long s b None (Some AllCash) = place_buy_order s1 b None (Some (amount s1)))) \<and>
         (position s \<noteq> 1 \<longrightarrow>
            go_short s b None (Some AllCash) = place_sell_order s b None (Some (amount s))) \<and>
         (position s = 1 \<longrightarrow>
            (\<exists>s1. place_sell_order s b (Some (units s)) None = Inr s1 \<and>
               go_short s b None (Some AllCash) = place_sell_order s1 b None (Some (amount s1))))"
proof (intro conjI impI)
  from assms have "p \<noteq> 0" by simp
  from budget_order[OF assms(1) this, of a] obtain s1 s2 u where
    h: "place_buy_order s b None (Some a) = Inr s1" "units s1 = units s + u"
       "place_sell_order s b None (Some a) = Inr s2" "units s2 = units s - u"
       "truncates_toward_zero (a / p) u" "u = int_trunc (a / p)"
    by blast
  have "0 \<le> a \<longrightarrow> u = \<lfloor>a / p\<rfloor>" using h(6) assms(2) by (simp add: int_trunc_def)
  moreover have "a < 0 \<longrightarrow> u = \<lceil>a / p\<rceil>"
  proof
    assume "a < 0"
    then have "a / p < 0" using assms(2) by (rule divide_neg_pos)
    then show "u = \<lceil>a / p\<rceil>" using h(6) by (simp add: int_trunc_def)
  qed
  ultimately show "\<exists>s1 s2 u.
            place_buy_order s b None (Some a) = Inr s1 \<and> units s1 = units s + u \<and>
            place_sell_order s b None (Some a) = Inr s2 \<and> units s2 = units s - u \<and>
            truncates_toward_zero (a / p) u \<and>
            (0 \<le> a \<longrightarrow> u = \<lfloor>a / p\<rfloor>) \<and> (a < 0 \<longrightarrow> u = \<lceil>a / p\<rceil>)"
    using h by blast
next
  assume "position s \<noteq> - 1"
  then show "go_long s b None (Some AllCash) = place_buy_order s b None (Some (amount s))"
    by (simp add: go_long_def bind_result_def)
next
  assume "position s = - 1"
  then show "\<exists>s1. place_buy_order s b (Some (- units s)) None = Inr s1 \<and>
               go_long s b None (Some AllCash) = place_buy_order s1 b None (Some (amount s1))"
    using assms(1) by (simp add: go_long_def bind_result_def place_buy_order_def order_units_def)
next
  assume "position s \<noteq> 1"
  then show "go_short s b None (Some AllCash) = place_sell_order s b None (Some (amount s))"
    by (simp add: go_short_def bind_result_def)
next
  assume "position s = 1"
  then show "\<exists>s1. place_sell_order s b (Some (units s)) None = Inr s1 \<and>
               go_short s b None (Some AllCash) = place_sell_order s1 b None (Some (amount s1))"
    using assms(1) by (simp add: go_short_def bind_result_def place_sell_order_def order_units_def)
qed


theorem budget_units_truncated_witness:
  "get_date_price debt_state 4 = Inr 2 \<and> (0 :: real) < 2 \<and>
   (\<exists>s1 s2 u.
      place_buy_order debt_state 4 None (Some (- 21)) = Inr s1 \<and> units s1 = units debt_state + u \<and>
      place_sell_order debt_state 4 None (Some (- 21)) = Inr s2 \<and> units s2 = units debt_state - u \<and>
      truncates_toward_zero (- 21 / 2) u \<and> u = - 10)"
proof -
  have p: "get_date_price debt_state 4 = Inr 2" by code_simp
  have c: "\<lceil>(- 21 :: real) / 2\<rceil> = - 10" by simp
  from budget_units_truncated[OF p, of "- 21"] c p show ?thesis by simp
qed


text \<open>
  Claim C3 as stated fails for a negative budget. After two bars of the long-only
  SMA(1, 2) run on \<open>crash_bars\<close> the cash is \<open>-21\<close>; the buy order of bar 4, at price 2,
  with \<^verbatim>\<open>amount=self.amount\<close>, trades \<open>-10\<close> units, and \<open>\<lfloor>-21 / 2\<rfloor>\<close> is \<open>-11\<close>.
\<close>

theorem budget_floor_counterexample:
  "run_upto (LongOnlySMA 1 2) 2 (init 10000 10 (1 / 100) False crash_bars) = Inr debt_state \<and>
   amount debt_state = - 21 \<and> get_date_price debt_state 4 = Inr 2 \<and>
   map_sum id units (place_buy_order debt_state 4 None (Some (amount debt_state))) = Inr (- 10) \<and>
   \<lfloor>(- 21 :: real) / 2\<rfloor> = - 11"
proof -
  have "run_upto (LongOnlySMA 1 2) 2 (init 10000 10 (1 / 100) False crash_bars) = Inr debt_state"
    by code_simp
  moreover have "amount debt_state = - 21" by (simp add: debt_state_def)
  moreover have "get_date_price debt_state 4 = Inr 2" by code_simp
  moreover have "map_sum id units (place_buy_order debt_state 4 None (Some (amount debt_state))) = Inr (- 10)"
    by code_simp
  moreover have "\<lfloor>(- 21 :: real) / 2\<rfloor> = - 11" by simp
  ultimately show ?thesis by blast
qed


text \<open>
  Claim C7, amended. Nothing guards the conversion of a budget against the price. At a
  price of zero the order raises and no state results: \<^verbatim>\<open>OverflowError\<close> for a budget
  other than zero (\<^verbatim>\<open>int\<close> of an infinity), \<^verbatim>\<open>ValueError\<close> for a budget of zero
  (\<^verbatim>\<open>int\<close> of a NaN). At a negative price the order is filled with \<open>a / p\<close> truncated
  toward zero, a negative unit count as soon as the budget reaches the size of the
  price.
\<close>

theorem budget_at_bad_price:
  assumes "get_date_price s b = Inr p"
  shows "(p = 0 \<and> a \<noteq> 0 \<longrightarrow>
            place_buy_order s b None (Some a) = Inl OverflowError \<and>
            place_sell_order s b None (Some a) = Inl OverflowError) \<and>
         (p = 0 \<and> a = 0 \<longrightarrow>
            place_buy_order s b None (Some a) = Inl ValueError \<and>
            place_sell_order s b None (Some a) = Inl ValueError) \<and>
         (p < 0 \<longrightarrow>
            (\<exists>s1 s2 u.
               place_buy_order s b None (Some a) = Inr s1 \<and> units s1 = units s + u \<and>
               place_sell_order s b None (Some a) = Inr s2 \<and> units s2 = units s - u \<and>
               truncates_toward_zero (a / p) u \<and> (- p \<le> a \<longrightarrow> u < 0)))"
proof (intro conjI impI; (elim conjE)?)
  assume "p = 0" and "a \<noteq> 0"
  with assms show "place_buy_order s b None (Some a) = Inl OverflowError"
    and "place_sell_order s b None (Some a) = Inl OverflowError"
    by (simp_all add: place_buy_order_def place_sell_order_def order_units_def bind_result_def)
next
  assume "p = 0" and "a = 0"
  with assms show "place_buy_order s b None (Some a) = Inl ValueError"
    and "place_sell_order s b None (Some a) = Inl ValueError"
    by (simp_all add: place_buy_order_def place_sell_order_def order_units_def bind_result_def)
next
  assume p: "p < 0"
  then have "p \<noteq> 0" by simp
  from budget_order[OF assms this, of a] obtain s1 s2 u where
    h: "place_buy_order s b None (Some a) = Inr s1" "units s1 = units s + u"
       "place_sell_order s b None (Some a) = Inr s2" "units s2 = units s - u"
       "truncates_toward_zero (a / p) u" "u = int_trunc (a / p)"
    by blast
  have "u < 0" if "- p \<le> a"
  proof -
    from that p have x: "a / p \<le> - 1"
      by (simp add: divide_le_eq)
    then have c: "\<lceil>a / p\<rceil> \<le> - 1" by (simp add: ceiling_le_iff)
    from x have "\<not> 0 \<le> a / p" by linarith
    then have "int_trunc (a / p) = \<lceil>a / p\<rceil>" unfolding int_trunc_def by (rule if_not_P)
    with h(6) c show ?thesis by linarith
  qed
  with h show "\<exists>s1 s2 u.
               place_buy_order s b None (Some a) = Inr s1 \<and> units s1 = units s + u \<and>
               place_sell_order s b None (Some a) = Inr s2 \<and> units s2 = units s - u \<and>
               truncates_toward_zero (a / p) u \<and> (- p \<le> a \<longrightarrow> u < 0)"
    by blast
qed

theorem budget_at_bad_price_witness:
  "get_date_price zero_price_start 2 = Inr 0 \<and>
   place_buy_order zero_price_start 2 None (Some 100) = Inl OverflowError \<and>
   place_sell_order zero_price_start 2 None (Some 100) = Inl OverflowError \<and>
   place_buy_order zero_price_start 2 None (Some 0) = Inl ValueError \<and>
   place_sell_order zero_price_start 2 None (Some 0) = Inl ValueError"
proof -
  have p: "get_date_price zero_price_start 2 = Inr 0" by code_simp
  from budget_at_bad_price[OF p, of 100] budget_at_bad_price[OF p, of 0] p
  show ?thesis by simp
qed


text \<open>
  Claim C7 as stated fails. With a budget of 100 at a price of zero both orders raise
  \<^verbatim>\<open>OverflowError\<close>, and so does the long-only mean-reversion run whose buy signal
  falls on that bar; at a price of \<open>-2\<close> the buy order trades \<open>-50\<close> units.
\<close>

theorem bad_price_counterexample:
  "get_date_price zero_price_start 2 = Inr 0 \<and>
   place_buy_order zero_price_start 2 None (Some 100) = Inl OverflowError \<and>
   place_sell_order zero_price_start 2 None (Some 100) = Inl OverflowError \<and>
   run (LongOnlyMeanReversion 2 (1 / 2)) zero_price_start = Inl OverflowError \<and>
   get_date_price negative_price_start 0 = Inr (- 2) \<and>
   map_sum id units (place_buy_order negative_price_start 0 None (Some 100)) = Inr (- 50)"
proof -
  have "get_date_price zero_price_start 2 = Inr 0" by code_simp
  moreover have "place_buy_order zero_price_start 2 None (Some 100) = Inl OverflowError" by code_simp
  moreover have "place_sell_order zero_price_start 2 None (Some 100) = Inl OverflowError" by code_simp
  moreover have "run (LongOnlyMeanReversion 2 (1 / 2)) zero_price_start = Inl OverflowError" by code_simp
  moreover have "get_date_price negative_price_start 0 = Inr (- 2)" by code_simp
  moreover have "map_sum id units (place_buy_order negative_price_start 0 None (Some 100)) = Inr (- 50)"
    by code_simp
  ultimately show ?thesis by blast
qed

subsection \<open>Flips of the long-short controller\<close>

lemma int_trunc_pos: "0 < p \<Longrightarrow> p \<le> c \<Longrightarrow> 0 < int_trunc (c / p)"
proof -
  assume p: "0 < p" and c: "p \<le> c"
  then have "1 \<le> c / p" by (simp add: le_divide_eq)
  then have "0 \<le> c / p" "1 \<le> \<lfloor>c / p\<rfloor>" by (simp_all add: le_floor_iff)
  then show ?thesis by (simp add: int_trunc_def)
qed

lemma int_trunc_neg: "0 < p \<Longrightarrow> c \<le> - p \<Longrightarrow> int_trunc (c / p) < 0"
proof -
  assume p: "0 < p" and c: "c \<le> - p"
  then have x: "c / p \<le> - 1" by (simp add: divide_le_eq)
  then have k: "\<lceil>c / p\<rceil> \<le> - 1" by (simp add: ceiling_le_iff)
  from x have "\<not> 0 \<le> c / p" by linarith
  then have "int_trunc (c / p) = \<lceil>c / p\<rceil>" unfolding int_trunc_def by (rule if_not_P)
  with k show ?thesis by linarith
qed

lemma go_long_cover:
  assumes "position s = - 1" and "go_long s b ua aa = Inr s'"
  shows "\<exists>p s1. get_date_price s b = Inr p \<and>
           place_buy_order s b (Some (- units s)) None = Inr s1 \<and>
           fills s1 = fills s @ [BuyFill b (- units s) p] \<and> units s1 = 0 \<and>
           trades s1 = trades s + 1 \<and>
           amount s1 = amount s - ((of_int (- units s) * p) * (1 + ptc s) + ftc s) \<and>
           (\<not> opens ua aa \<longrightarrow> s' = s1) \<and>
           (opens ua aa \<longrightarrow>
              (\<exists>u. fills s' = fills s1 @ [BuyFill b u p] \<and> trades s' = trades s + 2 \<and>
                 units s' = u \<and>
                 (\<forall>v. ua = Some v \<and> v \<noteq> 0 \<longrightarrow> u = v) \<and>
                 ((ua = None \<or> ua = Some 0) \<and> aa = Some AllCash \<longrightarrow>
                    p \<noteq> 0 \<and> u = int_trunc (amount s1 / p)) \<and>
                 (\<forall>a. (ua = None \<or> ua = Some 0) \<and> aa = Some (Cash a) \<longrightarrow>
                    p \<noteq> 0 \<and> u = int_trunc (a / p))))"
proof -
  from assms obtain s1 where
    1: "place_buy_order s b (Some (- units s)) None = Inr s1" and
    2: "(if ua \<noteq> None \<and> ua \<noteq> Some 0 then place_buy_order s1 b ua None
         else (case aa of None \<Rightarrow> Inr s1
               | Some AllCash \<Rightarrow> place_buy_order s1 b None (Some (amount s1))
               | Some (Cash a) \<Rightarrow> if a \<noteq> 0 then place_buy_order s1 b None (Some a) else Inr s1))
        = Inr s'"
    by (auto simp: go_long_def bind_result_eq_Inr)
  from 1 obtain p where p: "get_date_price s b = Inr p"
    and s1: "fills s1 = fills s @ [BuyFill b (- units s) p]" "trades s1 = trades s + 1"
      "units s1 = 0" "get_date_price s1 b = Inr p"
      "amount s1 = amount s - ((of_int (- units s) * p) * (1 + ptc s) + ftc s)"
    by (auto simp: place_buy_order_Inr order_units_def get_date_price_def)
  have n: "\<not> opens ua aa \<longrightarrow> s' = s1"
    using 2 by (auto simp: opens_def split: if_splits option.splits budget.splits)
  have o: "opens ua aa \<longrightarrow>
              (\<exists>u. fills s' = fills s1 @ [BuyFill b u p] \<and> trades s' = trades s + 2 \<and>
                 units s' = u \<and>
                 (\<forall>v. ua = Some v \<and> v \<noteq> 0 \<longrightarrow> u = v) \<and>
                 ((ua = None \<or> ua = Some 0) \<and> aa = Some AllCash \<longrightarrow>
                    p \<noteq> 0 \<and> u = int_trunc (amount s1 / p)) \<and>
                 (\<forall>a. (ua = None \<or> ua = Some 0) \<and> aa = Some (Cash a) \<longrightarrow>
                    p \<noteq> 0 \<and> u = int_trunc (a / p)))"
    using 2 s1
    by (auto simp: opens_def place_buy_order_Inr order_units_def
             split: if_splits option.splits budget.splits)
  from p 1 s1 n o show ?thesis by blast
qed

lemma go_short_sale:
  assumes "position s = 1" and "go_short s b ua aa = Inr s'"
  shows "\<exists>p s1. get_date_price s b = Inr p \<and>
           place_sell_order s b (Some (units s)) None = Inr s1 \<and>
           fills s1 = fills s @ [SellFill b (units s) p] \<and> units s1 = 0 \<and>
           trades s1 = trades s + 1 \<and>
           amount s1 = amount s + ((of_int (units s) * p) * (1 - ptc s) - ftc s) \<and>
           (\<not> opens ua aa \<longrightarrow> s' = s1) \<and>
           (opens ua aa \<longrightarrow>
              (\<exists>u. fills s' = fills s1 @ [SellFill b u p] \<and> trades s' = trades s + 2 \<and>
                 units s' = - u \<and>
                 (\<forall>v. ua = Some v \<and> v \<noteq> 0 \<longrightarrow> u = v) \<and>
                 ((ua = None \<or> ua = Some 0) \<and> aa = Some AllCash \<longrightarrow>
                    p \<noteq> 0 \<and> u = int_trunc (amount s1 / p)) \<and>
                 (\<forall>a. (ua = None \<or> ua = Some 0) \<and> aa = Some (Cash a) \<longrightarrow>
                    p \<noteq> 0 \<and> u = int_trunc (a / p))))"
proof -
  from assms obtain s1 where
    1: "place_sell_order s b (Some (units s)) None = Inr s1" and
    2: "(if ua \<noteq> None \<and> ua \<noteq> Some 0 then place_sell_order s1 b ua None
         else (case aa of None \<Rightarrow> Inr s1
               | Some AllCash \<Rightarrow> place_sell_order s1 b None (Some (amount s1))
               | Some (Cash a) \<Rightarrow> if a \<noteq> 0 then place_sell_order s1 b None (Some a) else Inr s1))
        = Inr s'"
    by (auto simp: go_short_def bind_result_eq_Inr)
  from 1 obtain p where p: "get_date_price s b = Inr p"
    and s1: "fills s1 = fills s @ [SellFill b (units s) p]" "trades s1 = trades s + 1"
      "units s1 = 0" "get_date_price s1 b = Inr p"
      "amount s1 = amount s + ((of_int (units s) * p) * (1 - ptc s) - ftc s)"
    by (auto simp: place_sell_order_Inr order_units_def get_date_price_def)
  have n: "\<not> opens ua aa \<longrightarrow> s' = s1"
    using 2 by (auto simp: opens_def split: if_splits option.splits budget.splits)
  have o: "opens ua aa \<longrightarrow>
              (\<exists>u. fills s' = fills s1 @ [SellFill b u p] \<and> trades s' = trades s + 2 \<and>
                 units s' = - u \<and>
                 (\<forall>v. ua = Some v \<and> v \<noteq> 0 \<longrightarrow> u = v) \<and>
                 ((ua = None \<or> ua = Some 0) \<and> aa = Some AllCash \<longrightarrow>
                    p \<noteq> 0 \<and> u = int_trunc (amount s1 / p)) \<and>
                 (\<forall>a. (ua = None \<or> ua = Some 0) \<and> aa = Some (Cash a) \<longrightarrow>
                    p \<noteq> 0 \<and> u = int_trunc (a / p)))"
    using 2 s1
    by (auto simp: opens_def place_sell_order_Inr order_units_def
             split: if_splits option.splits budget.splits)
  from p 1 s1 n o show ?thesis by blast
qed

lemma nan_gt_not_lt: "nan_gt x y \<Longrightarrow> \<not> nan_lt x y"
  by (cases x; cases y) auto

lemma nan_gt_not_le: "nan_gt x y \<Longrightarrow> \<not> nan_le x y"
  by (cases x; cases y) auto

lemma column_at_cong: "columns s' = columns s \<Longrightarrow> column_at s' name b = column_at s name b"
  by (simp add: column_at_def)

lemma go_long_columns: "go_long s b ua aa = Inr s' \<Longrightarrow> columns s' = columns s"
  using acts_frame[OF go_long_acts] by blast

lemma bind_result_InrE:
  assumes "bind_result m f = Inr y"
  obtains x where "m = Inr x" and "f x = Inr y"
  using assms by (auto simp: bind_result_eq_Inr)

lemma ls_sma_step_to_long:
  assumes "position s = - 1" and "ls_sma_step b s = Inr s'" and "position s' \<noteq> - 1"
  shows "\<exists>s1. go_long s b None (Some AllCash) = Inr s1 \<and> s' = s1\<lparr>position := 1\<rparr>"
proof -
  from assms(2)[unfolded ls_sma_step_def] obtain s1 where
    f: "(if position s = 0 \<or> position s = - 1 then bind_result (column_at s ''SMA1'' b) (\<lambda>x.
 bind_result (column_at s ''SMA2'' b) (\<lambda>y.
 if nan_gt x y then bind_result (go_long s b None (Some AllCash)) (\<lambda>s'. Inr (s'\<lparr>position := 1\<rparr>)) else Inr s)) else Inr s) = Inr s1" and
    g: "(if position s1 = 0 \<or> position s1 = 1 then bind_result (column_at s1 ''SMA1'' b) (\<lambda>x.
 bind_result (column_at s1 ''SMA2'' b) (\<lambda>y.
 if nan_lt x y then bind_result (go_short s1 b None (Some AllCash)) (\<lambda>s'. Inr (s'\<lparr>position := - 1\<rparr>)) else Inr s1)) else Inr s1) = Inr s'"
    by (rule bind_result_InrE)
  from f have f0: "bind_result (column_at s ''SMA1'' b) (\<lambda>x.
 bind_result (column_at s ''SMA2'' b) (\<lambda>y.
 if nan_gt x y then bind_result (go_long s b None (Some AllCash)) (\<lambda>s'. Inr (s'\<lparr>position := 1\<rparr>)) else Inr s)) = Inr s1"
    by (simp only: assms(1) simp_thms if_True)
  from f0 obtain x where c0: "column_at s ''SMA1'' b = Inr x" and
    f1: "(bind_result (column_at s ''SMA2'' b) (\<lambda>y.
 if nan_gt x y then bind_result (go_long s b None (Some AllCash)) (\<lambda>s'. Inr (s'\<lparr>position := 1\<rparr>)) else Inr s)) = Inr s1"
    by (rule bind_result_InrE)
  from f1 obtain y where c1: "column_at s ''SMA2'' b = Inr y" and
    f2: "(if nan_gt x y then bind_result (go_long s b None (Some AllCash)) (\<lambda>s'. Inr (s'\<lparr>position := 1\<rparr>)) else Inr s) = Inr s1"
    by (rule bind_result_InrE)
  show ?thesis
  proof (cases "nan_gt x y")
    case True
    with f2 have "bind_result (go_long s b None (Some AllCash)) (\<lambda>s'. Inr (s'\<lparr>position := 1\<rparr>)) = Inr s1"
      by simp
    then obtain s2 where s2: "go_long s b None (Some AllCash) = Inr s2"
      and "Inr (s2\<lparr>position := 1\<rparr>) = Inr s1"
      by (rule bind_result_InrE) blast
    then have s1: "s1 = s2\<lparr>position := 1\<rparr>" by simp
    have p1: "position s1 = 1" by (simp add: s1)
    have cs: "columns s1 = columns s" using go_long_columns[OF s2] by (simp add: s1)
    have c: "column_at s1 ''SMA1'' b = Inr x" "column_at s1 ''SMA2'' b = Inr y"
      using c0 c1 by (simp_all only: column_at_cong[OF cs])
    have n: "\<not> nan_lt x y" using True by (rule nan_gt_not_lt)
    from g have "Inr s1 = Inr s'"
      by (simp add: p1 c bind_result_Inr n)
    then have "s' = s1" by simp
    with s2 s1 show ?thesis by simp
  next
    case False
    with f2 have e: "s1 = s" by simp
    have "\<not> (position s = 0 \<or> position s = 1)" using assms(1) by simp
    with g have "Inr s = Inr s'"
      unfolding e by simp
    then have "s' = s" by simp
    with assms(1,3) show ?thesis by simp
  qed
qed

lemma ls_sma_step_to_short:
  assumes "position s = 1" and "ls_sma_step b s = Inr s'" and "position s' \<noteq> 1"
  shows "\<exists>s1. go_short s b None (Some AllCash) = Inr s1 \<and> s' = s1\<lparr>position := - 1\<rparr>"
proof -
  from assms(1) have "ls_sma_step b s =
      bind_result (column_at s ''SMA1'' b) (\<lambda>x.
      bind_result (column_at s ''SMA2'' b) (\<lambda>y.
        if nan_lt x y then
          bind_result (go_short s b None (Some AllCash)) (\<lambda>s'. Inr (s'\<lparr>position := - 1\<rparr>))
        else Inr s))"
    by (simp add: ls_sma_step_def bind_result_Inr)
  with assms(2) obtain x y where
    h: "(if nan_lt x y then
          bind_result (go_short s b None (Some AllCash)) (\<lambda>s'. Inr (s'\<lparr>position := - 1\<rparr>))
        else Inr s) = Inr s'"
    by (auto simp: bind_result_eq_Inr)
  show ?thesis
  proof (cases "nan_lt x y")
    case True
    with h show ?thesis by (auto simp: bind_result_eq_Inr)
  next
    case False
    with h assms show ?thesis by simp
  qed
qed

lemma ls_momentum_step_to_long:
  assumes "position s = - 1" and "ls_momentum_step b s = Inr s'" and "position s' \<noteq> - 1"
  shows "\<exists>s1. go_long s b None (Some AllCash) = Inr s1 \<and> s' = s1\<lparr>position := 1\<rparr>"
proof -
  from assms(2)[unfolded ls_momentum_step_def] obtain s1 where
    f: "(if position s = 0 \<or> position s = - 1 then bind_result (column_at s ''momentum'' b) (\<lambda>x.
 if nan_gt x (Some 0) then bind_result (go_long s b None (Some AllCash)) (\<lambda>s'. Inr (s'\<lparr>position := 1\<rparr>)) else Inr s) else Inr s) = Inr s1" and
    g: "(if position s1 = 0 \<or> position s1 = 1 then bind_result (column_at s1 ''momentum'' b) (\<lambda>x.
 if nan_le x (Some 0) then bind_result (go_short s1 b None (Some AllCash)) (\<lambda>s'. Inr (s'\<lparr>position := - 1\<rparr>)) else Inr s1) else Inr s1) = Inr s'"
    by (rule bind_result_InrE)
  from f have f0: "bind_result (column_at s ''momentum'' b) (\<lambda>x.
 if nan_gt x (Some 0) then bind_result (go_long s b None (Some AllCash)) (\<lambda>s'. Inr (s'\<lparr>position := 1\<rparr>)) else Inr s) = Inr s1"
    by (simp only: assms(1) simp_thms if_True)
  from f0 obtain x where c0: "column_at s ''momentum'' b = Inr x" and
    f1: "(if nan_gt x (Some 0) then bind_result (go_long s b None (Some AllCash)) (\<lambda>s'. Inr (s'\<lparr>position := 1\<rparr>)) else Inr s) = Inr s1"
    by (rule bind_result_InrE)
  show ?thesis
  proof (cases "nan_gt x (Some 0)")
    case True
    with f1 have "bind_result (go_long s b None (Some AllCash)) (\<lambda>s'. Inr (s'\<lparr>position := 1\<rparr>)) = Inr s1"
      by simp
    then obtain s2 where s2: "go_long s b None (Some AllCash) = Inr s2"
      and "Inr (s2\<lparr>position := 1\<rparr>) = Inr s1"
      by (rule bind_result_InrE) blast
    then have s1: "s1 = s2\<lparr>position := 1\<rparr>" by simp
    have p1: "position s1 = 1" by (simp add: s1)
    have cs: "columns s1 = columns s" using go_long_columns[OF s2] by (simp add: s1)
    have c: "column_at s1 ''momentum'' b = Inr x"
      using c0 by (simp_all only: column_at_cong[OF cs])
    have n: "\<not> nan_le x (Some 0)" using True by (rule nan_gt_not_le)
    from g have "Inr s1 = Inr s'"
      by (simp add: p1 c bind_result_Inr n)
    then have "s' = s1" by simp
    with s2 s1 show ?thesis by simp
  next
    case False
    with f1 have e: "s1 = s" by simp
    have "\<not> (position s = 0 \<or> position s = 1)" using assms(1) by simp
    with g have "Inr s = Inr s'"
      unfolding e by simp
    then have "s' = s" by simp
    with assms(1,3) show ?thesis by simp
  qed
qed

lemma ls_momentum_step_to_short:
  assumes "position s = 1" and "ls_momentum_step b s = Inr s'" and "position s' \<noteq> 1"
  shows "\<exists>s1. go_short s b None (Some AllCash) = Inr s1 \<and> s' = s1\<lparr>position := - 1\<rparr>"
proof -
  from assms(1) have "ls_momentum_step b s =
      bind_result (column_at s ''momentum'' b) (\<lambda>x.
        if nan_le x (Some 0) then
          bind_result (go_short s b None (Some AllCash)) (\<lambda>s'. Inr (s'\<lparr>position := - 1\<rparr>))
        else Inr s)"
    by (simp add: ls_momentum_step_def bind_result_Inr)
  with assms(2) obtain x where
    h: "(if nan_le x (Some 0) then
          bind_result (go_short s b None (Some AllCash)) (\<lambda>s'. Inr (s'\<lparr>position := - 1\<rparr>))
        else Inr s) = Inr s'"
    by (auto simp: bind_result_eq_Inr)
  show ?thesis
  proof (cases "nan_le x (Some 0)")
    case True
    with h show ?thesis by (auto simp: bind_result_eq_Inr)
  next
    case False
    with h assms show ?thesis by simp
  qed
qed

lemma go_long_total:
  assumes "get_date_price s b = Inr p" and "p \<noteq> 0"
  shows "\<exists>s'. go_long s b None (Some AllCash) = Inr s'"
  using assms
  by (simp add: go_long_def place_buy_order_def bind_result_def order_units_def get_date_price_def)

lemma go_short_total:
  assumes "get_date_price s b = Inr p" and "p \<noteq> 0"
  shows "\<exists>s'. go_short s b None (Some AllCash) = Inr s'"
  using assms
  by (simp add: go_short_def place_sell_order_def bind_result_def order_units_def get_date_price_def)

text \<open>
  Claim C4, amended. A \<^verbatim>\<open>go_long\<close> from a short position first places a buy order
  that closes the whole holding at the price of the bar, a \<^verbatim>\<open>go_short\<close> from a long
  position a sell order that does so. With no opening order (neither \<^verbatim>\<open>units\<close> nor
  \<^verbatim>\<open>amount\<close> given, or given as zero) that is the only fill. Otherwise a second
  order of the same kind follows at the same bar and price, never combined with the
  first, and the trade count grows by two; its unit count is the one given, or the
  budget over the price truncated toward zero, \<^verbatim>\<open>"all"\<close> being the cash balance that
  the closing order has left. The SMA and momentum loops of \<^verbatim>\<open>BacktestLongShort\<close>
  flip in no other way: a pass through their loop body that leaves the short (long)
  position ends with the position long (short) and exactly these two fills, the
  second one with \<^verbatim>\<open>amount="all"\<close>. At a positive price that second order opens
  the new side when the balance left by the closing order is at least the price; when
  that balance is \<open>-p\<close> or less the second order has a negative unit count, and the
  holding ends on the side opposite to the position. At a bar of the frame whose price
  is not zero, \<^verbatim>\<open>go_long\<close> and \<^verbatim>\<open>go_short\<close> with \<^verbatim>\<open>amount="all"\<close> do not raise.
\<close>

theorem flip_is_two_orders:
  "(position s = - 1 \<and> go_long s b ua aa = Inr s' \<longrightarrow>
      (\<exists>p s1. get_date_price s b = Inr p \<and>
         place_buy_order s b (Some (- units s)) None = Inr s1 \<and>
         fills s1 = fills s @ [BuyFill b (- units s) p] \<and> units s1 = 0 \<and>
         trades s1 = trades s + 1 \<and>
         amount s1 = amount s - ((of_int (- units s) * p) * (1 + ptc s) + ftc s) \<and>
         (\<not> opens ua aa \<longrightarrow> s' = s1) \<and>
         (opens ua aa \<longrightarrow>
            (\<exists>u. fills s' = fills s1 @ [BuyFill b u p] \<and> trades s' = trades s + 2 \<and>
               units s' = u \<and>
               (\<forall>v. ua = Some v \<and> v \<noteq> 0 \<longrightarrow> u = v) \<and>
               ((ua = None \<or> ua = Some 0) \<and> aa = Some AllCash \<longrightarrow>
                  p \<noteq> 0 \<and> u = int_trunc (amount s1 / p)) \<and>
               (\<forall>a. (ua = None \<or> ua = Some 0) \<and> aa = Some (Cash a) \<longrightarrow>
                  p \<noteq> 0 \<and> u = int_trunc (a / p)))))) \<and>
   (position s = 1 \<and> go_short s b ua aa = Inr s' \<longrightarrow>
      (\<exists>p s1. get_date_price s b = Inr p \<and>
         place_sell_order s b (Some (units s)) None = Inr s1 \<and>
         fills s1 = fills s @ [SellFill b (units s) p] \<and> units s1 = 0 \<and>
         trades s1 = trades s + 1 \<and>
         amount s1 = amount s + ((of_int (units s) * p) * (1 - ptc s) - ftc s) \<and>
         (\<not> opens ua aa \<longrightarrow> s' = s1) \<and>
         (opens ua aa \<longrightarrow>
            (\<exists>u. fills s' = fills s1 @ [SellFill b u p] \<and> trades s' = trades s + 2 \<and>
               units s' = - u \<and>
               (\<forall>v. ua = Some v \<and> v \<noteq> 0 \<longrightarrow> u = v) \<and>
               ((ua = None \<or> ua = Some 0) \<and> aa = Some AllCash \<longrightarrow>
                  p \<noteq> 0 \<and> u = int_trunc (amount s1 / p)) \<and>
               (\<forall>a. (ua = None \<or> ua = Some 0) \<and> aa = Some (Cash a) \<longrightarrow>
                  p \<noteq> 0 \<and> u = int_trunc (a / p)))))) \<and>
   ((step = ls_sma_step \<or> step = ls_momentum_step) \<and>
    position s = - 1 \<and> step b s = Inr t \<and> position t \<noteq> - 1 \<longrightarrow>
      position t = 1 \<and>
      (\<exists>p s1 u. get_date_price s b = Inr p \<and> p \<noteq> 0 \<and>
         place_buy_order s b (Some (- units s)) None = Inr s1 \<and>
         fills t = fills s @ [BuyFill b (- units s) p, BuyFill b u p] \<and>
         trades t = trades s + 2 \<and> units t = u \<and> u = int_trunc (amount s1 / p) \<and>
         (0 < p \<and> p \<le> amount s1 \<longrightarrow> 0 < units t) \<and>
         (0 < p \<and> amount s1 \<le> - p \<longrightarrow> units t < 0))) \<and>
   ((step = ls_sma_step \<or> step = ls_momentum_step) \<and>
    position s = 1 \<and> step b s = Inr t \<and> position t \<noteq> 1 \<longrightarrow>
      position t = - 1 \<and>
      (\<exists>p s1 u. get_date_price s b = Inr p \<and> p \<noteq> 0 \<and>
         place_sell_order s b (Some (units s)) None = Inr s1 \<and>
         fills t = fills s @ [SellFill b (units s) p, SellFill b u p] \<and>
         trades t = trades s + 2 \<and> units t = - u \<and> u = int_trunc (amount s1 / p) \<and>
         (0 < p \<and> p \<le> amount s1 \<longrightarrow> units t < 0) \<and>
         (0 < p \<and> amount s1 \<le> - p \<longrightarrow> 0 < units t))) \<and>
   (get_date_price s b = Inr q \<and> q \<noteq> 0 \<longrightarrow>
      (\<exists>l. go_long s b None (Some AllCash) = Inr l) \<and>
      (\<exists>h. go_short s b None (Some AllCash) = Inr h))"
proof (intro conjI impI; (elim conjE)?)
  assume "position s = - 1" and "go_long s b ua aa = Inr s'"
  then show "\<exists>p s1. get_date_price s b = Inr p \<and>
         place_buy_order s b (Some (- units s)) None = Inr s1 \<and>
         fills s1 = fills s @ [BuyFill b (- units s) p] \<and> units s1 = 0 \<and>
         trades s1 = trades s + 1 \<and>
         amount s1 = amount s - ((of_int (- units s) * p) * (1 + ptc s) + ftc s) \<and>
         (\<not> opens ua aa \<longrightarrow> s' = s1) \<and>
         (opens ua aa \<longrightarrow>
            (\<exists>u. fills s' = fills s1 @ [BuyFill b u p] \<and> trades s' = trades s + 2 \<and>
               units s' = u \<and>
               (\<forall>v. ua = Some v \<and> v \<noteq> 0 \<longrightarrow> u = v) \<and>
               ((ua = None \<or> ua = Some 0) \<and> aa = Some AllCash \<longrightarrow>
                  p \<noteq> 0 \<and> u = int_trunc (amount s1 / p)) \<and>
               (\<forall>a. (ua = None \<or> ua = Some 0) \<and> aa = Some (Cash a) \<longrightarrow>
                  p \<noteq> 0 \<and> u = int_trunc (a / p))))"
    by (rule go_long_cover)
next
  assume "position s = 1" and "go_short s b ua aa = Inr s'"
  then show "\<exists>p s1. get_date_price s b = Inr p \<and>
         place_sell_order s b (Some (units s)) None = Inr s1 \<and>
         fills s1 = fills s @ [SellFill b (units s) p] \<and> units s1 = 0 \<and>
         trades s1 = trades s + 1 \<and>
         amount s1 = amount s + ((of_int (units s) * p) * (1 - ptc s) - ftc s) \<and>
         (\<not> opens ua aa \<longrightarrow> s' = s1) \<and>
         (opens ua aa \<longrightarrow>
            (\<exists>u. fills s' = fills s1 @ [SellFill b u p] \<and> trades s' = trades s + 2 \<and>
               units s' = - u \<and>
               (\<forall>v. ua = Some v \<and> v \<noteq> 0 \<longrightarrow> u = v) \<and>
               ((ua = None \<or> ua = Some 0) \<and> aa = Some AllCash \<longrightarrow>
                  p \<noteq> 0 \<and> u = int_trunc (amount s1 / p)) \<and>
               (\<forall>a. (ua = None \<or> ua = Some 0) \<and> aa = Some (Cash a) \<longrightarrow>
                  p \<noteq> 0 \<and> u = int_trunc (a / p))))"
    by (rule go_short_sale)
next
  assume a: "step = ls_sma_step \<or> step = ls_momentum_step" "position s = - 1" "step b s = Inr t"
    "position t \<noteq> - 1"
  then obtain s2 where s2: "go_long s b None (Some AllCash) = Inr s2" "t = s2\<lparr>position := 1\<rparr>"
    using ls_sma_step_to_long ls_momentum_step_to_long by blast
  have o: "opens None (Some AllCash)" by (simp add: opens_def)
  from go_long_cover[OF a(2) s2(1)] o obtain p s1 u where
    h: "get_date_price s b = Inr p" "place_buy_order s b (Some (- units s)) None = Inr s1"
       "fills s1 = fills s @ [BuyFill b (- units s) p]"
       "fills s2 = fills s1 @ [BuyFill b u p]" "trades s2 = trades s + 2" "units s2 = u"
       "p \<noteq> 0" "u = int_trunc (amount s1 / p)"
    by blast
  show "position t = 1" by (simp add: s2(2))
  have "0 < p \<and> p \<le> amount s1 \<longrightarrow> 0 < units t"
    using int_trunc_pos[of p "amount s1"] h(6,8) by (simp add: s2(2))
  moreover have "0 < p \<and> amount s1 \<le> - p \<longrightarrow> units t < 0"
    using int_trunc_neg[of p "amount s1"] h(6,8) by (simp add: s2(2))
  moreover have "fills t = fills s @ [BuyFill b (- units s) p, BuyFill b u p]"
    "trades t = trades s + 2" "units t = u"
    using h by (simp_all add: s2(2))
  ultimately show "\<exists>p s1 u. get_date_price s b = Inr p \<and> p \<noteq> 0 \<and>
         place_buy_order s b (Some (- units s)) None = Inr s1 \<and>
         fills t = fills s @ [BuyFill b (- units s) p, BuyFill b u p] \<and>
         trades t = trades s + 2 \<and> units t = u \<and> u = int_trunc (amount s1 / p) \<and>
         (0 < p \<and> p \<le> amount s1 \<longrightarrow> 0 < units t) \<and>
         (0 < p \<and> amount s1 \<le> - p \<longrightarrow> units t < 0)"
    using h(1,2,7,8) by blast
next
  assume a: "step = ls_sma_step \<or> step = ls_momentum_step" "position s = 1" "step b s = Inr t"
    "position t \<noteq> 1"
  then obtain s2 where s2: "go_short s b None (Some AllCash) = Inr s2" "t = s2\<lparr>position := - 1\<rparr>"
    using ls_sma_step_to_short ls_momentum_step_to_short by blast
  have o: "opens None (Some AllCash)" by (simp add: opens_def)
  from go_short_sale[OF a(2) s2(1)] o obtain p s1 u where
    h: "get_date_price s b = Inr p" "place_sell_order s b (Some (units s)) None = Inr s1"
       "fills s1 = fills s @ [SellFill b (units s) p]"
       "fills s2 = fills s1 @ [SellFill b u p]" "trades s2 = trades s + 2" "units s2 = - u"
       "p \<noteq> 0" "u = int_trunc (amount s1 / p)"
    by blast
  show "position t = - 1" by (simp add: s2(2))
  have "0 < p \<and> p \<le> amount s1 \<longrightarrow> units t < 0"
    using int_trunc_pos[of p "amount s1"] h(6,8) by (simp add: s2(2))
  moreover have "0 < p \<and> amount s1 \<le> - p \<longrightarrow> 0 < units t"
    using int_trunc_neg[of p "amount s1"] h(6,8) by (simp add: s2(2))
  moreover have "fills t = fills s @ [SellFill b (units s) p, SellFill b u p]"
    "trades t = trades s + 2" "units t = - u"
    using h by (simp_all add: s2(2))
  ultimately show "\<exists>p s1 u. get_date_price s b = Inr p \<and> p \<noteq> 0 \<and>
         place_sell_order s b (Some (units s)) None = Inr s1 \<and>
         fills t = fills s @ [SellFill b (units s) p, SellFill b u p] \<and>
         trades t = trades s + 2 \<and> units t = - u \<and> u = int_trunc (amount s1 / p) \<and>
         (0 < p \<and> p \<le> amount s1 \<longrightarrow> units t < 0) \<and>
         (0 < p \<and> amount s1 \<le> - p \<longrightarrow> 0 < units t)"
    using h(1,2,7,8) by blast
next
  assume "get_date_price s b = Inr q" "q \<noteq> 0"
  then show "\<exists>l. go_long s b None (Some AllCash) = Inr l"
    and "\<exists>h. go_short s b None (Some AllCash) = Inr h"
    by (rule go_long_total, rule go_short_total)
qed

theorem flip_is_two_orders_witness:
  "position short_state = - 1 \<and> opens None (Some AllCash) \<and>
   go_long short_state 1 None (Some AllCash) = Inr long_state \<and>
   (\<exists>p s1 u. get_date_price short_state 1 = Inr p \<and>
      place_buy_order short_state 1 (Some (- units short_state)) None = Inr s1 \<and>
      fills s1 = fills short_state @ [BuyFill 1 (- units short_state) p] \<and>
      fills long_state = fills s1 @ [BuyFill 1 u p] \<and>
      trades long_state = trades short_state + 2 \<and> units long_state = u \<and>
      u = int_trunc (amount s1 / p))"
proof -
  have 1: "opens None (Some AllCash)" by (simp add: opens_def)
  have 2: "position short_state = - 1" by (simp add: short_state_def)
  have 3: "go_long short_state 1 None (Some AllCash) = Inr long_state" by code_simp
  from flip_is_two_orders[of short_state 1 None "Some AllCash" long_state, THEN conjunct1] 2 3
  obtain p s1 where
    h: "get_date_price short_state 1 = Inr p"
       "place_buy_order short_state 1 (Some (- units short_state)) None = Inr s1"
       "fills s1 = fills short_state @ [BuyFill 1 (- units short_state) p]"
    and o: "opens None (Some AllCash) \<longrightarrow>
       (\<exists>u. fills long_state = fills s1 @ [BuyFill 1 u p] \<and>
          trades long_state = trades short_state + 2 \<and> units long_state = u \<and>
          (\<forall>v. (None :: int option) = Some v \<and> v \<noteq> 0 \<longrightarrow> u = v) \<and>
          (((None :: int option) = None \<or> (None :: int option) = Some 0) \<and>
           Some AllCash = Some AllCash \<longrightarrow> p \<noteq> 0 \<and> u = int_trunc (amount s1 / p)) \<and>
          (\<forall>a. ((None :: int option) = None \<or> (None :: int option) = Some 0) \<and>
             Some AllCash = Some (Cash a) \<longrightarrow> p \<noteq> 0 \<and> u = int_trunc (a / p)))"
    by blast
  from o 1 obtain u where
    u: "fills long_state = fills s1 @ [BuyFill 1 u p]"
       "trades long_state = trades short_state + 2" "units long_state = u"
       "u = int_trunc (amount s1 / p)"
    by auto
  from 1 2 3 h u show ?thesis by blast
qed

text \<open>
  Claim C4 as stated fails for the second fill. In the long-short SMA(1, 2) run on
  \<open>flip_bars\<close> the object is short 500 units, sold at 2, with a cash balance of 2000
  when the price rises to 8 at bar 3. The flip to long covers the 500 units for 4000,
  which leaves a balance of \<open>-2000\<close>, and the second buy order, for
  \<^verbatim>\<open>int(-2000 / 8)\<close> units, is a buy of \<open>-250\<close> units: the pass ends with the position
  long and a holding of \<open>-250\<close>, and no long side has been opened.
\<close>

theorem flip_buys_short_counterexample:
  "run_upto (LongShortSMA 1 2) 1 flip_start = Inr flip_short \<and>
   position flip_short = - 1 \<and> units flip_short = - 500 \<and>
   ls_sma_step 3 flip_short = Inr flip_long \<and>
   position flip_long = 1 \<and> units flip_long = - 250 \<and>
   fills flip_long = fills flip_short @ [BuyFill 3 500 8, BuyFill 3 (- 250) 8] \<and>
   trades flip_long = trades flip_short + 2"
proof -
  have "run_upto (LongShortSMA 1 2) 1 flip_start = Inr flip_short" by code_simp
  moreover have "ls_sma_step 3 flip_short = Inr flip_long" by code_simp
  ultimately show ?thesis by (simp add: flip_short_def flip_long_def)
qed

subsection \<open>The stages of a run\<close>

lemma set_rolling_Inr:
  "set_rolling name src w s = Inr s' \<longleftrightarrow>
     0 \<le> w \<and> s' = s\<lparr>columns := AList.update name (map (window_mean (nat w) (map src (data s))) [0..<length (data s)]) (columns s)\<rparr>"
  by (auto simp: set_rolling_def rolling_mean_def bind_result_def)

lemma prepare_effect:
  assumes "prepare st s = Inr s1"
  shows "trades s1 = 0 \<and> fills s1 = [] \<and> position s1 = 0 \<and> amount s1 = initial_amount s \<and>
         units s1 = units s \<and> data s1 = data s \<and> initial_amount s1 = initial_amount s \<and>
         ftc s1 = ftc s \<and> ptc s1 = ptc s \<and> verbose s1 = verbose s \<and> 0 \<le> start_of st"
  using assms
  by (cases st) (auto simp: set_rolling_Inr bind_result_eq_Inr reset_run_def)

lemma run_bars_Inr:
  "run_bars step w s = Inr s' \<longleftrightarrow>
     (\<exists>s2. run_loop step (bar_range w s) s = Inr s2 \<and> bar_range w s \<noteq> [] \<and>
           close_out s2 (last (bar_range w s)) = Inr s')"
  by (auto simp: run_bars_def bind_result_eq_Inr)

lemma run_Inr:
  "run st s = Inr s' \<longleftrightarrow>
     (\<exists>s1 s2. prepare st s = Inr s1 \<and>
        run_loop (step_of st) (bar_range (start_of st) s1) s1 = Inr s2 \<and>
        bar_range (start_of st) s1 \<noteq> [] \<and>
        close_out s2 (last (bar_range (start_of st) s1)) = Inr s')"
  by (simp add: run_stages bind_result_eq_Inr run_bars_Inr)

lemma run_upto_all:
  assumes "prepare st s = Inr s1" and "length (data s) \<le> k"
  shows "run_upto st k s = run_loop (step_of st) (bar_range (start_of st) s1) s1"
proof -
  have "data s1 = data s" using prepare_effect[OF assms(1)] by simp
  then have "length (bar_range (start_of st) s1) \<le> k"
    using assms(2) by (simp add: bar_range_def)
  then show ?thesis using assms(1) by (simp add: run_upto_def bind_result_Inr)
qed

lemma run_upto_acts:
  assumes "prepare st s = Inr s1" and "run_upto st k s = Inr t"
  shows "acts (set (bar_range (start_of st) s1)) s1 t"
proof -
  from assms have "run_loop (step_of st) (take k (bar_range (start_of st) s1)) s1 = Inr t"
    by (simp add: run_upto_def bind_result_Inr)
  from run_loop_acts[OF this] show ?thesis
    by (rule acts_mono) (rule set_take_subset)
qed

lemma last_bar_range:
  assumes "bar_range w s \<noteq> []"
  shows "last (bar_range w s) = length (data s) - 1" and "nat w < length (data s)"
  using assms by (simp_all add: bar_range_def)

lemma run_loop_invariant:
  assumes "\<And>b s s'. b \<in> set bs \<Longrightarrow> I s \<Longrightarrow> step b s = Inr s' \<Longrightarrow> I s'"
    and "I s" and "run_loop step bs s = Inr s'"
  shows "I s'"
  using assms
proof (induction bs arbitrary: s)
  case Nil
  then show ?case by simp
next
  case (Cons b bs)
  from Cons.prems(3) obtain s1 where 1: "step b s = Inr s1" and 2: "run_loop step bs s1 = Inr s'"
    by (auto simp: bind_result_eq_Inr)
  have s1: "I s1" using Cons.prems(1)[OF _ Cons.prems(2) 1] by simp
  show ?case
  proof (rule Cons.IH[OF _ s1 2])
    fix c x y
    assume "c \<in> set bs" "I x" "step c x = Inr y"
    then show "I y" using Cons.prems(1)[of c x y] by simp
  qed
qed

subsection \<open>Trade count\<close>

text \<open>
  Claim C1, amended. After every completed run of any strategy the trade count is the
  number of buy and sell fills of the loop plus one: the close-out at the last bar
  always counts as one trade, whether the holding it liquidates is zero or not; it
  adds the holding times the price to the cash, which is nothing for a holding of
  zero. Up to the close-out the trade count is the number of fills so far.
\<close>

theorem trade_count_includes_close_out:
  assumes "run st s = Inr s'"
  shows "\<exists>t fs p.
           run_upto st (length (data s)) s = Inr t \<and> fills t = fs \<and> trades t = length fs \<and>
           list_all is_order fs \<and>
           fills s' = fs @ [CloseOutFill (length (data s) - 1) (units t) p] \<and>
           trades s' = length fs + 1 \<and> units s' = 0 \<and>
           amount s' = amount t + of_int (units t) * p"
proof -
  from assms obtain s1 s2 where
    1: "prepare st s = Inr s1" and
    2: "run_loop (step_of st) (bar_range (start_of st) s1) s1 = Inr s2" and
    3: "bar_range (start_of st) s1 \<noteq> []" and
    4: "close_out s2 (last (bar_range (start_of st) s1)) = Inr s'"
    by (auto simp: run_Inr)
  have u: "run_upto st (length (data s)) s = Inr s2"
    using run_upto_all[OF 1 order_refl] 2 by simp
  from acts_fills[OF run_loop_acts[OF 2]] prepare_effect[OF 1]
  have f: "list_all is_order (fills s2)" "trades s2 = length (fills s2)"
    by auto
  have d: "data s1 = data s" using prepare_effect[OF 1] by simp
  from 4 obtain p where
    "fills s' = fills s2 @ [CloseOutFill (last (bar_range (start_of st) s1)) (units s2) p]"
    "trades s' = trades s2 + 1" "units s' = 0" "amount s' = amount s2 + of_int (units s2) * p"
    by (auto simp: close_out_Inr)
  with last_bar_range(1)[OF 3] d u f show ?thesis by simp
qed

theorem trade_count_includes_close_out_witness:
  "run (LongOnlySMA 1 2) crash_start = Inr crash_end \<and>
   (\<exists>t fs p.
      run_upto (LongOnlySMA 1 2) (length (data crash_start)) crash_start = Inr t \<and>
      fills t = fs \<and> trades t = length fs \<and> list_all is_order fs \<and>
      fills crash_end = fs @ [CloseOutFill (length (data crash_start) - 1) (units t) p] \<and>
      trades crash_end = length fs + 1 \<and> units crash_end = 0)"
proof -
  have r: "run (LongOnlySMA 1 2) crash_start = Inr crash_end" by code_simp
  from trade_count_includes_close_out[OF r] r show ?thesis by blast
qed

text \<open>
  Claim C1 as stated fails when the position is flat at the end. On a constant series
  no signal fires: after the loop the position is flat, the holding is zero and there
  is no fill, yet the run ends with a trade count of 1 for the close-out of zero units.
\<close>

theorem flat_close_out_counterexample:
  "run_upto (LongOnlySMA 1 2) 3 flat_start = Inr flat_loop_end \<and>
   position flat_loop_end = 0 \<and> units flat_loop_end = 0 \<and> fills flat_loop_end = [] \<and>
   run (LongOnlySMA 1 2) flat_start = Inr flat_end \<and>
   fills flat_end = [CloseOutFill 2 0 1] \<and> trades flat_end = 1"
proof -
  have "run_upto (LongOnlySMA 1 2) 3 flat_start = Inr flat_loop_end" by code_simp
  moreover have "run (LongOnlySMA 1 2) flat_start = Inr flat_end" by code_simp
  ultimately show ?thesis by (simp add: flat_loop_end_def flat_end_def)
qed

subsection \<open>Windows and bars\<close>

lemma window_too_long:
  assumes "prepare st s = Inr s1" and "int (length (data s)) \<le> start_of st"
  shows "run st s = Inl UnboundLocalError"
proof -
  have "data s1 = data s" using prepare_effect[OF assms(1)] by simp
  with assms(2) have "bar_range (start_of st) s1 = []"
    by (simp add: bar_range_def)
  then show ?thesis
    using assms(1) by (simp add: run_stages bind_result_Inr run_bars_def)
qed

text \<open>
  Claim C8 does not hold of the code. With a window equal to the length of the series
  (3 bars, window 3) or above it (window 4) the range of the loop is empty, the loop
  variable \<^verbatim>\<open>bar\<close> is never bound, and \<^verbatim>\<open>self.close_out(bar)\<close> raises
  \<^verbatim>\<open>UnboundLocalError\<close>, in each of the six strategy methods; the run does not
  complete.
\<close>

theorem window_not_below_length_raises:
  "run (LongOnlySMA 1 3) flat_start = Inl UnboundLocalError \<and>
   run (LongOnlyMomentum 3) flat_start = Inl UnboundLocalError \<and>
   run (LongOnlyMeanReversion 3 0) flat_start = Inl UnboundLocalError \<and>
   run (LongShortSMA 1 3) flat_start = Inl UnboundLocalError \<and>
   run (LongShortMomentum 3) flat_start = Inl UnboundLocalError \<and>
   run (LongShortMeanReversion 3 0) flat_start = Inl UnboundLocalError \<and>
   run (LongOnlySMA 1 4) flat_start = Inl UnboundLocalError"
  by (intro conjI; code_simp)

lemma start_column_at:
  assumes "prepare st s = Inr s1" and "b < length (data s)"
  shows "\<exists>xs. column_at s1 (start_column st) b = Inr (window_mean (nat (start_of st)) xs b)"
  using assms
  by (cases st)
     (auto simp: set_rolling_Inr bind_result_eq_Inr reset_run_def column_at_def
        update_conv' iloc_def)

lemma window_mean_defined:
  "(\<exists>v. window_mean w xs b = Some v) \<longleftrightarrow> 0 < w \<and> w \<le> b + 1"
  by (auto simp: window_mean_def)

text \<open>
  Claim C9, amended. With the window \<open>W\<close> that sets the start of the loop (\<^verbatim>\<open>SMA2\<close>,
  \<^verbatim>\<open>momentum\<close>, \<^verbatim>\<open>SMA\<close>) accepted, the run is the loop over the bars
  \<open>W, ..., N - 1\<close> in order, followed by the close-out, and every fill of the run, the
  close-out included, is at one of these bars: none is at an earlier bar. The
  rolling mean of window \<open>W\<close> is defined from bar \<open>W - 1\<close> on (for \<open>W > 0\<close>): the loop
  starts one bar after the first bar at which it is defined.
\<close>

theorem loop_bars:
  assumes "prepare st s = Inr s1"
  shows "run st s = run_bars (step_of st) (start_of st) s1 \<and>
         bar_range (start_of st) s1 = [nat (start_of st) ..< length (data s)] \<and>
         (\<forall>s'. run st s = Inr s' \<longrightarrow>
            (\<forall>f \<in> set (fills s'). nat (start_of st) \<le> fill_bar f \<and> fill_bar f < length (data s))) \<and>
         (\<forall>b < length (data s).
            (\<exists>v. column_at s1 (start_column st) b = Inr (Some v)) \<longleftrightarrow>
            0 < start_of st \<and> nat (start_of st) \<le> b + 1)"
proof (intro conjI allI impI)
  show "run st s = run_bars (step_of st) (start_of st) s1"
    by (simp add: run_stages assms bind_result_Inr)
  have d: "data s1 = data s" using prepare_effect[OF assms] by simp
  then show r: "bar_range (start_of st) s1 = [nat (start_of st) ..< length (data s)]"
    by (simp add: bar_range_def)
  {
    fix s' assume "run st s = Inr s'"
    then obtain s2 where
      2: "run_loop (step_of st) (bar_range (start_of st) s1) s1 = Inr s2" and
      3: "bar_range (start_of st) s1 \<noteq> []" and
      4: "close_out s2 (last (bar_range (start_of st) s1)) = Inr s'"
      using assms by (auto simp: run_Inr)
    from acts_fills[OF run_loop_acts[OF 2]] prepare_effect[OF assms]
    have f: "\<forall>f \<in> set (fills s2). fill_bar f \<in> set (bar_range (start_of st) s1)"
      by auto
    from 4 obtain p where
      c: "fills s' = fills s2 @ [CloseOutFill (last (bar_range (start_of st) s1)) (units s2) p]"
      by (auto simp: close_out_Inr)
    have "last (bar_range (start_of st) s1) \<in> set (bar_range (start_of st) s1)"
      using 3 by (rule last_in_set)
    with f c have "\<forall>f \<in> set (fills s'). fill_bar f \<in> set (bar_range (start_of st) s1)"
      by auto
    then show "\<forall>f \<in> set (fills s'). nat (start_of st) \<le> fill_bar f \<and> fill_bar f < length (data s)"
      unfolding r by simp
  }
  fix b assume b: "b < length (data s)"
  from start_column_at[OF assms b] obtain xs where
    "column_at s1 (start_column st) b = Inr (window_mean (nat (start_of st)) xs b)" ..
  then have "(\<exists>v. column_at s1 (start_column st) b = Inr (Some v)) \<longleftrightarrow>
             (\<exists>v. window_mean (nat (start_of st)) xs b = Some v)"
    by simp
  also have "\<dots> \<longleftrightarrow> 0 < start_of st \<and> nat (start_of st) \<le> b + 1"
    by (simp add: window_mean_defined)
  finally show "(\<exists>v. column_at s1 (start_column st) b = Inr (Some v)) \<longleftrightarrow>
            0 < start_of st \<and> nat (start_of st) \<le> b + 1" .
qed

theorem loop_bars_witness:
  "prepare (LongOnlySMA 1 2) crash_start = Inr crash_prepared \<and>
   run (LongOnlySMA 1 2) crash_start = Inr crash_end \<and>
   bar_range 2 crash_prepared = [2, 3, 4] \<and>
   2 \<le> fill_bar (BuyFill 4 (- 10) 2) \<and> fill_bar (BuyFill 4 (- 10) 2) < 5 \<and>
   (\<exists>v. column_at crash_prepared ''SMA2'' 1 = Inr (Some v))"
proof -
  have p: "prepare (LongOnlySMA 1 2) crash_start = Inr crash_prepared" by code_simp
  have r: "run (LongOnlySMA 1 2) crash_start = Inr crash_end" by code_simp
  have l: "length (data crash_start) = 5" by (simp add: crash_start_def init_def crash_bars_def)
  have u: "[2 ..< 5] = [2, 3, 4::nat]" by code_simp
  have m: "BuyFill 4 (- 10) 2 \<in> set (fills crash_end)" by (simp add: crash_end_def)
  note t = loop_bars[OF p, unfolded l]
  from t have 1: "bar_range 2 crash_prepared = [2, 3, 4]" using u by simp
  from t r m have 2: "2 \<le> fill_bar (BuyFill 4 (- 10) 2) \<and> fill_bar (BuyFill 4 (- 10) 2) < 5"
    by simp
  from t have "(\<exists>v. column_at crash_prepared (start_column (LongOnlySMA 1 2)) 1 = Inr (Some v)) \<longleftrightarrow>
      0 < start_of (LongOnlySMA 1 2) \<and> nat (start_of (LongOnlySMA 1 2)) \<le> 1 + 1"
    by (elim conjE allE[of _ 1] impE) simp_all
  then have 3: "\<exists>v. column_at crash_prepared ''SMA2'' 1 = Inr (Some v)" by simp
  from p r 1 2 3 show ?thesis by blast
qed

text \<open>
  Claim C9 as stated fails. For SMA(1, 2) on five bars both rolling means are defined
  at bar 1 (and the longer one is not at bar 0), but the loop visits bars 2, 3 and 4.
\<close>

theorem first_defined_bar_counterexample:
  "prepare (LongOnlySMA 1 2) crash_start = Inr crash_prepared \<and>
   column_at crash_prepared ''SMA1'' 1 = Inr (Some 50) \<and>
   column_at crash_prepared ''SMA2'' 1 = Inr (Some 50) \<and>
   column_at crash_prepared ''SMA2'' 0 = Inr None \<and>
   bar_range 2 crash_prepared = [2, 3, 4]"
  by (intro conjI; code_simp)

subsection \<open>Running twice\<close>

lemma update_twice:
  assumes "k1 \<noteq> k2"
  shows "AList.update k2 v2 (AList.update k1 v1 (AList.update k2 v2 (AList.update k1 v1 al))) =
         AList.update k2 v2 (AList.update k1 v1 al)"
proof -
  let ?X = "AList.update k2 v2 (AList.update k1 v1 al)"
  have "map_of ?X k1 = Some v1" using assms by (simp add: update_conv')
  then have 1: "AList.update k1 v1 ?X = ?X" by (rule update_triv)
  have "map_of ?X k2 = Some v2" by (simp add: update_conv')
  then have 2: "AList.update k2 v2 ?X = ?X" by (rule update_triv)
  show ?thesis by (simp only: 1 2)
qed

lemma reset_columns_cong:
  assumes "initial_amount a = initial_amount b" and "ftc a = ftc b" and "ptc a = ptc b"
    and "units a = units b" and "verbose a = verbose b" and "data a = data b"
  shows "(reset_run a)\<lparr>columns := c\<rparr> = (reset_run b)\<lparr>columns := c\<rparr>"
  using assms by (cases a; cases b) (simp add: reset_run_def)

lemma set_rolling_reset:
  "set_rolling name src w (reset_run s) =
     (if w < 0 then Inl ValueError
      else Inr ((reset_run s)\<lparr>columns :=
             AList.update name (map (window_mean (nat w) (map src (data s))) [0..<length (data s)])
               (columns s)\<rparr>))"
  by (simp add: set_rolling_def rolling_mean_def bind_result_def reset_run_def)

lemma set_rolling_columns:
  "set_rolling name src w (s\<lparr>columns := c\<rparr>) =
     (if w < 0 then Inl ValueError
      else Inr (s\<lparr>columns :=
             AList.update name (map (window_mean (nat w) (map src (data s))) [0..<length (data s)]) c\<rparr>))"
  by (simp add: set_rolling_def rolling_mean_def bind_result_def)

lemma prepare_again:
  assumes "prepare st s = Inr p"
    and "initial_amount a = initial_amount s" and "ftc a = ftc s" and "ptc a = ptc s"
    and "units a = units s" and "verbose a = verbose s" and "data a = data s"
    and "columns a = columns p"
  shows "prepare st a = Inr p"
proof -
  note c = reset_columns_cong[OF assms(2-7)]
  show ?thesis
  proof (cases st)
    case (LongOnlySMA w1 w2)
    with assms(1,7,8) show ?thesis
      by (auto simp: set_rolling_reset set_rolling_columns bind_result_def c update_twice
          split: if_splits)
  next
    case (LongOnlyMomentum w)
    with assms(1,7,8) show ?thesis
      by (auto simp: set_rolling_reset c split: if_splits)
  next
    case (LongOnlyMeanReversion w th)
    with assms(1,7,8) show ?thesis
      by (auto simp: set_rolling_reset c split: if_splits)
  next
    case (LongShortSMA w1 w2)
    with assms(1,7,8) show ?thesis
      by (auto simp: set_rolling_reset set_rolling_columns bind_result_def c update_twice
          split: if_splits)
  next
    case (LongShortMomentum w)
    with assms(1,7,8) show ?thesis
      by (auto simp: set_rolling_reset c split: if_splits)
  next
    case (LongShortMeanReversion w th)
    with assms(1,7,8) show ?thesis
      by (auto simp: set_rolling_reset c split: if_splits)
  qed
qed

lemma close_out_frame:
  "close_out s b = Inr s' \<Longrightarrow>
     initial_amount s' = initial_amount s \<and> ftc s' = ftc s \<and> ptc s' = ptc s \<and>
     verbose s' = verbose s \<and> data s' = data s \<and> columns s' = columns s \<and>
     position s' = position s \<and> units s' = 0"
  by (auto simp: close_out_Inr)

text \<open>
  Claim C6. A run on an object whose holding is zero, as it is after \<^verbatim>\<open>__init__\<close>
  and after every completed run, leaves the object in a state from which the same
  strategy with the same parameters starts as it did the first time: cash at the
  initial amount, position flat, no trades, no fills, holding zero, the same indicator
  columns. The second run therefore completes too and ends in the very same state,
  with the same fills and the same summary.
\<close>

theorem rerun_identical:
  assumes "units s = 0" and "run st s = Inr s1"
  shows "\<exists>p s2. prepare st s = Inr p \<and> prepare st s1 = Inr p \<and>
             amount p = initial_amount s \<and> position p = 0 \<and> trades p = 0 \<and> units p = 0 \<and>
             fills p = [] \<and>
             run st s1 = Inr s2 \<and> fills s2 = fills s1 \<and> summary s2 = summary s1 \<and> s2 = s1"
proof -
  from assms(2) obtain p s2 where
    1: "prepare st s = Inr p" and
    2: "run_loop (step_of st) (bar_range (start_of st) p) p = Inr s2" and
    3: "bar_range (start_of st) p \<noteq> []" and
    4: "close_out s2 (last (bar_range (start_of st) p)) = Inr s1"
    by (auto simp: run_Inr)
  note e = prepare_effect[OF 1]
  note f = acts_frame[OF run_loop_acts[OF 2]]
  note g = close_out_frame[OF 4]
  have "prepare st s1 = Inr p"
    using 1 by (rule prepare_again) (simp_all add: e f g assms(1))
  moreover from this have "run st s1 = run st s" by (simp add: run_stages 1)
  ultimately show ?thesis using 1 e assms by simp
qed

theorem rerun_identical_witness:
  "units crash_start = 0 \<and> run (LongOnlySMA 1 2) crash_start = Inr crash_end \<and>
   prepare (LongOnlySMA 1 2) crash_end = Inr crash_prepared \<and>
   run (LongOnlySMA 1 2) crash_end = Inr crash_end"
proof -
  have u: "units crash_start = 0" by (simp add: crash_start_def init_def)
  have r: "run (LongOnlySMA 1 2) crash_start = Inr crash_end" by code_simp
  have p: "prepare (LongOnlySMA 1 2) crash_start = Inr crash_prepared" by code_simp
  from rerun_identical[OF u r] p u r show ?thesis by auto
qed

subsection \<open>The long-only policy\<close>

lemma long_only_step_position:
  assumes "long_only st" and "flat_or_long s" and "step_of st b s = Inr s'"
  shows "flat_or_long s'"
  using assms
  by (cases st)
     (auto simp: flat_or_long_def lo_sma_step_def lo_momentum_step_def lo_mean_reversion_step_def
        bind_result_eq_Inr split: if_splits)

lemma price_positive:
  assumes "list_all (\<lambda>x. 0 < price x) (data s)" and "get_date_price s b = Inr p"
  shows "0 < p"
  using assms by (auto simp: get_date_price_def iloc_def list_all_length split: if_splits)

lemma buy_all_solvent:
  assumes "solvent s" and "place_buy_order s b None (Some (amount s)) = Inr s'"
  shows "solvent s'"
proof -
  from assms(2) obtain p u where p: "get_date_price s b = Inr p"
    and u: "order_units None (Some (amount s)) p = Inr u"
    and s': "s' = s\<lparr>amount := amount s - ((of_int u * p) * (1 + ptc s) + ftc s),
              units := units s + u, trades := trades s + 1,
              fills := fills s @ [BuyFill b u p]\<rparr>"
    by (auto simp: place_buy_order_Inr)
  have pp: "0 < p" using price_positive[OF _ p] assms(1) by (simp add: solvent_def)
  have a: "0 \<le> amount s" using assms(1) by (simp add: solvent_def)
  then have q: "0 \<le> amount s / p" using pp by simp
  from u pp have "u = int_trunc (amount s / p)" by (simp add: order_units_def)
  with q have uf: "u = \<lfloor>amount s / p\<rfloor>" by (simp add: int_trunc_def)
  then have u0: "0 \<le> u" using q by simp
  have "real_of_int u \<le> amount s / p" unfolding uf by (rule of_int_floor_le)
  then have "real_of_int u * p \<le> amount s" using pp by (simp add: le_divide_eq)
  with assms(1) u0 show ?thesis by (simp add: solvent_def s')
qed

lemma sell_all_solvent:
  assumes "solvent s" and "place_sell_order s b (Some (units s)) None = Inr s'"
  shows "solvent s'"
proof -
  from assms(2) obtain p where p: "get_date_price s b = Inr p"
    and s': "s' = s\<lparr>amount := amount s + ((of_int (units s) * p) * (1 - ptc s) - ftc s),
              units := units s - units s, trades := trades s + 1,
              fills := fills s @ [SellFill b (units s) p]\<rparr>"
    by (auto simp: place_sell_order_Inr order_units_def)
  have pp: "0 < p" using price_positive[OF _ p] assms(1) by (simp add: solvent_def)
  have "0 \<le> real_of_int (units s) * p" using assms(1) pp by (simp add: solvent_def)
  with assms(1) show ?thesis by (simp add: solvent_def s')
qed

lemma solvent_position: "solvent (s\<lparr>position := v\<rparr>) = solvent s"
  by (simp add: solvent_def)

lemma long_only_step_solvent:
  assumes "long_only st" and "solvent s" and "step_of st b s = Inr s'"
  shows "solvent s'"
  using assms
  by (cases st)
     (auto simp: lo_sma_step_def lo_momentum_step_def lo_mean_reversion_step_def
        bind_result_eq_Inr solvent_position split: if_splits
        dest: buy_all_solvent sell_all_solvent)

text \<open>
  Claim C5, amended. In every long-only strategy, for every series and every choice
  of windows and threshold, the position is flat or long after any number of passes
  through the loop body and after the close-out. The holding stays non-negative (and
  so does the cash) when there are no transaction costs, the prices are positive, and
  the run starts with non-negative initial amount and holding.
\<close>

theorem long_only_never_short:
  assumes "long_only st"
  shows "(run_upto st k s = Inr t \<longrightarrow> position t = 0 \<or> position t = 1) \<and>
         (run st s = Inr s' \<longrightarrow> position s' = 0 \<or> position s' = 1) \<and>
         (ftc s = 0 \<and> ptc s = 0 \<and> 0 \<le> initial_amount s \<and> 0 \<le> units s \<and>
          list_all (\<lambda>x. 0 < price x) (data s) \<longrightarrow>
            (run_upto st k s = Inr t \<longrightarrow> 0 \<le> units t \<and> 0 \<le> amount t) \<and>
            (run st s = Inr s' \<longrightarrow> units s' = 0 \<and> 0 \<le> amount s'))"
proof -
  have pos: "flat_or_long x"
    if "prepare st s = Inr s1" "run_loop (step_of st) bs s1 = Inr x" for s1 bs x
  proof (rule run_loop_invariant[where I = flat_or_long, OF _ _ that(2)])
    show "flat_or_long s1" using prepare_effect[OF that(1)] by (simp add: flat_or_long_def)
  next
    fix b x y assume "flat_or_long x" "step_of st b x = Inr y"
    then show "flat_or_long y" by (rule long_only_step_position[OF assms])
  qed
  have sol: "solvent x"
    if "prepare st s = Inr s1" "run_loop (step_of st) bs s1 = Inr x"
      and z: "ftc s = 0 \<and> ptc s = 0 \<and> 0 \<le> initial_amount s \<and> 0 \<le> units s \<and>
          list_all (\<lambda>x. 0 < price x) (data s)" for s1 bs x
  proof (rule run_loop_invariant[where I = solvent, OF _ _ that(2)])
    show "solvent s1" using prepare_effect[OF that(1)] z by (simp add: solvent_def)
  next
    fix b x y assume "solvent x" "step_of st b x = Inr y"
    then show "solvent y" by (rule long_only_step_solvent[OF assms])
  qed
  have u: "\<exists>s1. prepare st s = Inr s1 \<and>
             run_loop (step_of st) (take k (bar_range (start_of st) s1)) s1 = Inr t"
    if "run_upto st k s = Inr t"
    using that by (auto simp: run_upto_def bind_result_eq_Inr)
  have r: "\<exists>s1 s2 b. prepare st s = Inr s1 \<and>
             run_loop (step_of st) (bar_range (start_of st) s1) s1 = Inr s2 \<and>
             close_out s2 b = Inr s'"
    if "run st s = Inr s'"
    using that by (auto simp: run_Inr)
  show ?thesis
  proof (intro conjI impI)
    assume "run_upto st k s = Inr t"
    from u[OF this] pos show "position t = 0 \<or> position t = 1"
      by (auto simp: flat_or_long_def)
  next
    assume "run st s = Inr s'"
    from r[OF this] obtain s1 s2 b where
      h: "prepare st s = Inr s1" "run_loop (step_of st) (bar_range (start_of st) s1) s1 = Inr s2"
         "close_out s2 b = Inr s'" by blast
    from pos[OF h(1,2)] close_out_frame[OF h(3)] show "position s' = 0 \<or> position s' = 1"
      by (simp add: flat_or_long_def)
  next
    assume z: "ftc s = 0 \<and> ptc s = 0 \<and> 0 \<le> initial_amount s \<and> 0 \<le> units s \<and>
          list_all (\<lambda>x. 0 < price x) (data s)"
    assume "run_upto st k s = Inr t"
    from u[OF this] obtain s1 where
      h: "prepare st s = Inr s1" "run_loop (step_of st) (take k (bar_range (start_of st) s1)) s1 = Inr t"
      by blast
    from sol[OF h z] show "0 \<le> units t" "0 \<le> amount t" by (simp_all add: solvent_def)
  next
    assume z: "ftc s = 0 \<and> ptc s = 0 \<and> 0 \<le> initial_amount s \<and> 0 \<le> units s \<and>
          list_all (\<lambda>x. 0 < price x) (data s)"
    assume "run st s = Inr s'"
    from r[OF this] obtain s1 s2 b where
      h: "prepare st s = Inr s1" "run_loop (step_of st) (bar_range (start_of st) s1) s1 = Inr s2"
         "close_out s2 b = Inr s'" by blast
    from close_out_frame[OF h(3)] show "units s' = 0" by simp
    have s2: "solvent s2" by (rule sol[OF h(1,2) z])
    from h(3) obtain p where p: "get_date_price s2 b = Inr p"
      and a: "amount s' = amount s2 + of_int (units s2) * p"
      by (auto simp: close_out_Inr)
    have "0 < p" using price_positive[OF _ p] s2 by (simp add: solvent_def)
    then have "0 \<le> real_of_int (units s2) * p" using s2 by (simp add: solvent_def)
    with a s2 show "0 \<le> amount s'" by (simp add: solvent_def)
  qed
qed

theorem long_only_never_short_witness:
  "long_only (LongOnlySMA 1 2) \<and>
   run_upto (LongOnlySMA 1 2) 3 rise_start = Inr rise_loop_end \<and>
   run (LongOnlySMA 1 2) rise_start = Inr rise_end \<and>
   (position rise_loop_end = 0 \<or> position rise_loop_end = 1) \<and>
   (position rise_end = 0 \<or> position rise_end = 1) \<and>
   0 \<le> units rise_loop_end \<and> 0 \<le> amount rise_loop_end \<and>
   units rise_end = 0 \<and> 0 \<le> amount rise_end"
proof -
  have l: "long_only (LongOnlySMA 1 2)" by simp
  have u: "run_upto (LongOnlySMA 1 2) 3 rise_start = Inr rise_loop_end" by code_simp
  have r: "run (LongOnlySMA 1 2) rise_start = Inr rise_end" by code_simp
  have z: "ftc rise_start = 0 \<and> ptc rise_start = 0 \<and> 0 \<le> initial_amount rise_start \<and>
      0 \<le> units rise_start \<and> list_all (\<lambda>x. 0 < price x) (data rise_start)"
    by (simp add: rise_start_def init_def rise_bars_def)
  from long_only_never_short[OF l, of 3 rise_start rise_loop_end rise_end] u r z l
  show ?thesis by simp
qed

text \<open>
  Claim C5 as stated fails for the holding. With the costs of the source's main block
  (initial amount 10000, fixed cost 10, proportional cost 1 percent) on the positive
  prices 50, 50, 100, 1, 2 the cash is negative after the sale of bar 3, and the buy
  order of bar 4 leaves a holding of \<open>-10\<close> units while the position is long.
\<close>

theorem short_holding_counterexample:
  "run_upto (LongOnlySMA 1 2) 3 crash_start = Inr crash_loop_end \<and>
   position crash_loop_end = 1 \<and> units crash_loop_end = - 10 \<and>
   map price (data crash_start) = [50, 50, 100, 1, 2]"
proof -
  have "run_upto (LongOnlySMA 1 2) 3 crash_start = Inr crash_loop_end" by code_simp
  moreover have "map price (data crash_start) = [50, 50, 100, 1, 2]"
    by (simp add: crash_start_def init_def crash_bars_def)
  ultimately show ?thesis by (simp add: crash_loop_end_def)
qed

end
